theory Spec2Isabelle
  imports Complex_Main "HOL-Library.Sublist"
begin

section \<open>The openclaw-maasv plugin: data model\<close>

text \<open>
  The plugin is glue between an agent host and the remote maasv service. Its TypeScript
  sources are embedded as follows.
  \<^item> A JavaScript string is a \<open>string\<close>; every element stands for one code unit, so
    \<open>length\<close> is the \<^verbatim>\<open>.length\<close> of the source.
  \<^item> A JavaScript \<^verbatim>\<open>number\<close> is a \<open>real\<close>: the finite values. The only arithmetic the
    plugin does on numbers is a multiplication by 4, a division by 2, a rounding up and
    comparisons; NaN and the infinities are outside the model.
  \<^item> An optional property is an \<open>option\<close>; \<open>None\<close> is \<^verbatim>\<open>undefined\<close>.
  \<^item> A rejected promise or a thrown exception is \<open>Inl\<close> of a result \<open>error + 'a\<close>.
  \<^item> The network and the logger are an explicit \<open>world\<close> that every effectful function
    takes and returns.
\<close>

subsection \<open>JavaScript helpers\<close>

datatype error = Error (message: string)

datatype json =
    JNull
  | JBool bool
  | JNum real
  | JStr string
  | JArr "json list"
  | JObj "(string \<times> json) list"

text \<open>
  An object literal handed to \<^verbatim>\<open>JSON.stringify\<close>: properties whose value is
  \<^verbatim>\<open>undefined\<close> are left out, the others keep their order.
\<close>

definition obj :: "(string \<times> json option) list \<Rightarrow> json" where
  "obj fields = JObj (List.map_filter (\<lambda>(k, v). map_option (Pair k) v) fields)"

text \<open>Truthiness of an optional string: \<^verbatim>\<open>undefined\<close> and \<^verbatim>\<open>""\<close> are falsy.\<close>

fun truthy :: "string option \<Rightarrow> bool" where
  "truthy None = False"
| "truthy (Some s) = (s \<noteq> [])"

text \<open>\<^verbatim>\<open>ToIntegerOrInfinity\<close> on a finite number: truncation towards zero.\<close>

definition to_integer :: "real \<Rightarrow> int" where
  "to_integer x = (if x < 0 then \<lceil>x\<rceil> else \<lfloor>x\<rfloor>)"

text \<open>
  \<^verbatim>\<open>String.prototype.slice(start, end)\<close>: a negative index counts from the end, both
  indices are clamped to the string, and an empty range gives the empty string.
\<close>

definition slice_index :: "nat \<Rightarrow> real \<Rightarrow> nat" where
  "slice_index len x =
     (let k = to_integer x in
      if k < 0 then nat (max (int len + k) 0) else nat (min k (int len)))"

definition slice :: "string \<Rightarrow> real \<Rightarrow> real \<Rightarrow> string" where
  "slice s start end =
     (let from = slice_index (length s) start;
          to = slice_index (length s) end
      in if from \<ge> to then [] else take (to - from) (drop from s))"

text \<open>\<^verbatim>\<open>Array.prototype.join\<close> on strings.\<close>

fun join :: "string \<Rightarrow> string list \<Rightarrow> string" where
  "join sep [] = []"
| "join sep [x] = x"
| "join sep (x # y # ys) = x @ sep @ join sep (y # ys)"

text \<open>
  The conversions of a number to text are built into the language and not part of the
  plugin; they are parameters of the model. \<open>number_to_string\<close> is the conversion of a
  template literal, \<open>to_fixed x d\<close> is \<^verbatim>\<open>x.toFixed(d)\<close>.
\<close>

record js_env =
  number_to_string :: "real \<Rightarrow> string"
  to_fixed :: "real \<Rightarrow> nat \<Rightarrow> string"

subsection \<open>Configuration (types.ts, index.ts)\<close>

record PluginConfig =
  serverUrl :: string
  apiKey :: "string option"
  autoRecall :: bool
  autoCapture :: bool
  maxRecallResults :: real
  maxRecallTokens :: real
  enableGraph :: bool
  enableWisdom :: bool



definition DEFAULT_CONFIG :: PluginConfig where
  "DEFAULT_CONFIG = \<lparr>serverUrl = ''http://127.0.0.1:18790'', apiKey = None,
     autoRecall = True, autoCapture = True, maxRecallResults = 5, maxRecallTokens = 2000,
     enableGraph = True, enableWisdom = False\<rparr>"



subsection \<open>HTTP and the world\<close>

record http_request =
  req_method :: string
  req_url :: string
  req_headers :: "(string \<times> string) list"
  req_body :: "json option"

text \<open>
  What \<^verbatim>\<open>await fetch(url, init)\<close> gives: the promise rejects (no connection, or the
  abort that the 30 second timer of \<^verbatim>\<open>request\<close> triggers), or a response arrives with
  its status, what \<^verbatim>\<open>response.text()\<close> yields (\<open>None\<close> when that rejects) and what
  \<^verbatim>\<open>response.json()\<close> yields, already at the type \<open>'a\<close> the caller asserts for it.
\<close>

datatype 'a fetch_outcome =
    Rejected error
  | Response (status: nat) (body_text: "string option") (body_json: "error + 'a")

text \<open>\<^verbatim>\<open>response.ok\<close>.\<close>

definition ok :: "nat \<Rightarrow> bool" where
  "ok st = (200 \<le> st \<and> st \<le> 299)"

text \<open>
  The world: the requests handed to \<^verbatim>\<open>fetch\<close> so far (one entry for each call, the URL
  string and the \<^verbatim>\<open>init\<close> object as the caller built them), the warnings given to the
  host's logger, and the state of everything behind \<^verbatim>\<open>fetch\<close>: the platform, the
  network and the remote service.
\<close>

record 'r world =
  sent :: "http_request list"
  warnings :: "string list"
  remote :: 'r

text \<open>
  \<open>fetch\<close> is one call of \<^verbatim>\<open>fetch(url, init)\<close>: the call is recorded and what is behind
  \<^verbatim>\<open>fetch\<close>, a function \<open>srv\<close> of the request and of its own state, decides the
  outcome. How many HTTP requests the platform makes for the call, and what it makes of
  the URL string, is part of \<open>srv\<close>; the section on the platform below gives the
  \<open>srv\<close> that follows redirects.
\<close>

definition fetch ::
  "(http_request \<Rightarrow> 'r \<Rightarrow> 'a fetch_outcome \<times> 'r) \<Rightarrow> http_request \<Rightarrow> 'r world
     \<Rightarrow> 'a fetch_outcome \<times> 'r world" where
  "fetch srv req w =
     (let (out, r') = srv req (remote w)
      in (out, w\<lparr>sent := sent w @ [req], remote := r'\<rparr>))"

definition logger_warn :: "string \<Rightarrow> 'r world \<Rightarrow> 'r world" where
  "logger_warn msg w = w\<lparr>warnings := warnings w @ [msg]\<rparr>"

subsection \<open>Shared types (types.ts)\<close>

record Memory =
  mem_id :: string
  mem_content :: string
  mem_category :: string
  mem_subject :: "string option"
  mem_source :: string
  mem_confidence :: real
  mem_importance :: "real option"
  mem_access_count :: real
  mem_created_at :: string
  mem_updated_at :: string
  mem_metadata :: "json option"

record ScoredMemory = Memory +
  distance :: "real option"
  imp_score :: "real option"

record StoreRequest =
  sr_content :: string
  sr_category :: string
  sr_subject :: "string option"
  sr_source :: "string option"
  sr_confidence :: "real option"
  sr_metadata :: "json option"

record SearchRequest =
  q_query :: string
  q_limit :: "real option"
  q_category :: "string option"
  q_subject :: "string option"

record ContextRequest =
  c_query :: "string option"
  c_core_limit :: "real option"
  c_relevant_limit :: "real option"
  c_use_semantic :: "bool option"

record Entity =
  ent_id :: string
  ent_name :: string
  ent_entity_type :: string
  ent_canonical_name :: string
  ent_metadata :: "json option"
  ent_access_count :: real

record Relationship =
  rel_id :: string
  rel_subject_id :: string
  rel_predicate :: string
  rel_object_id :: "string option"
  rel_object_value :: "string option"
  rel_valid_from :: string
  rel_valid_to :: "string option"
  rel_confidence :: real
  rel_subject_name :: "string option"
  rel_object_name :: "string option"

record EntityProfile =
  entity :: Entity
  relationships :: "(string \<times> Relationship list) list"
  related_entities :: "Entity list"

record WisdomEntry =
  wis_id :: string
  wis_action_type :: string
  wis_reasoning :: string
  wis_outcome :: string
  wis_outcome_details :: "string option"
  wis_feedback_score :: "real option"
  wis_feedback_notes :: "string option"
  wis_timestamp :: string
  wis_tags :: "string list option"

text \<open>The reply shapes that the client methods declare inline.\<close>

record memory_id_reply =
  memory_id :: string

record 'a results_reply =
  results :: "'a list"
  count :: real

record context_reply =
  reply_context :: string

record deleted_reply =
  deleted :: bool
  deleted_memory_id :: string

record relationship_id_reply =
  relationship_id :: string

record wisdom_id_reply =
  wisdom_id :: string

record updated_reply =
  updated :: bool

text \<open>
  The request objects as the JSON that is sent. Keys are in the order of the declaring
  interface; an absent optional key is left out.
\<close>

definition json_of_StoreRequest :: "StoreRequest \<Rightarrow> json" where
  "json_of_StoreRequest r = obj [
     (''content'', Some (JStr (sr_content r))),
     (''category'', Some (JStr (sr_category r))),
     (''subject'', map_option JStr (sr_subject r)),
     (''source'', map_option JStr (sr_source r)),
     (''confidence'', map_option JNum (sr_confidence r)),
     (''metadata'', sr_metadata r)]"

definition json_of_SearchRequest :: "SearchRequest \<Rightarrow> json" where
  "json_of_SearchRequest r = obj [
     (''query'', Some (JStr (q_query r))),
     (''limit'', map_option JNum (q_limit r)),
     (''category'', map_option JStr (q_category r)),
     (''subject'', map_option JStr (q_subject r))]"

definition json_of_ContextRequest :: "ContextRequest \<Rightarrow> json" where
  "json_of_ContextRequest r = obj [
     (''query'', map_option JStr (c_query r)),
     (''core_limit'', map_option JNum (c_core_limit r)),
     (''relevant_limit'', map_option JNum (c_relevant_limit r)),
     (''use_semantic'', map_option JBool (c_use_semantic r))]"

section \<open>The HTTP client (client.ts)\<close>

record MaasvClient =
  baseUrl :: string
  headers :: "(string \<times> string) list"

text \<open>\<^verbatim>\<open>s.replace(/\/+$/, "")\<close>: the slashes at the end of the string are removed.\<close>

definition strip_trailing_slashes :: "string \<Rightarrow> string" where
  "strip_trailing_slashes s = rev (dropWhile (\<lambda>c. c = CHR ''/'') (rev s))"

text \<open>The constructor. \<^verbatim>\<open>if (config.apiKey)\<close> is a test for truthiness.\<close>

definition new_MaasvClient :: "PluginConfig \<Rightarrow> MaasvClient" where
  "new_MaasvClient config = \<lparr>
     baseUrl = strip_trailing_slashes (serverUrl config),
     headers = (''Content-Type'', ''application/json'') #
       (case apiKey config of
          None \<Rightarrow> []
        | Some k \<Rightarrow> if k \<noteq> [] then [(''X-Maasv-Key'', k)] else [])\<rparr>"

text \<open>
  \<^verbatim>\<open>request<T>(method, path, body)\<close>. The timer only decides when \<^verbatim>\<open>fetch\<close> is aborted,
  which is one of the ways \<open>fetch\<close> can be \<open>Rejected\<close>; \<^verbatim>\<open>clearTimeout\<close> has no effect
  on the result.
\<close>

definition request ::
  "(http_request \<Rightarrow> 'r \<Rightarrow> 'a fetch_outcome \<times> 'r) \<Rightarrow> js_env \<Rightarrow> MaasvClient
     \<Rightarrow> string \<Rightarrow> string \<Rightarrow> json option \<Rightarrow> 'r world \<Rightarrow> (error + 'a) \<times> 'r world" where
  "request srv js client method path body w =
     (let url = baseUrl client @ path;
          init = \<lparr>req_method = method, req_url = url, req_headers = headers client,
                  req_body = body\<rparr>
      in case fetch srv init w of
           (Rejected e, w') \<Rightarrow> (Inl e, w')
         | (Response st txt parsed, w') \<Rightarrow>
             if \<not> ok st then
               (let text = (case txt of None \<Rightarrow> [] | Some t \<Rightarrow> t)
                in (Inl (Error (''maasv-server '' @ method @ '' '' @ path @ '' failed: ''
                      @ number_to_string js (real st) @ '' '' @ text)), w'))
             else (parsed, w'))"

subsection \<open>Memory\<close>

definition storeMemory ::
  "(http_request \<Rightarrow> 'r \<Rightarrow> memory_id_reply fetch_outcome \<times> 'r) \<Rightarrow> js_env \<Rightarrow> MaasvClient
     \<Rightarrow> StoreRequest \<Rightarrow> 'r world \<Rightarrow> (error + memory_id_reply) \<times> 'r world" where
  "storeMemory srv js client req =
     request srv js client ''POST'' ''/v1/memory/store'' (Some (json_of_StoreRequest req))"

definition searchMemories ::
  "(http_request \<Rightarrow> 'r \<Rightarrow> ScoredMemory results_reply fetch_outcome \<times> 'r) \<Rightarrow> js_env
     \<Rightarrow> MaasvClient \<Rightarrow> SearchRequest \<Rightarrow> 'r world
     \<Rightarrow> (error + ScoredMemory results_reply) \<times> 'r world" where
  "searchMemories srv js client req =
     request srv js client ''POST'' ''/v1/memory/search'' (Some (json_of_SearchRequest req))"

definition getContext ::
  "(http_request \<Rightarrow> 'r \<Rightarrow> context_reply fetch_outcome \<times> 'r) \<Rightarrow> js_env \<Rightarrow> MaasvClient
     \<Rightarrow> ContextRequest \<Rightarrow> 'r world \<Rightarrow> (error + context_reply) \<times> 'r world" where
  "getContext srv js client req =
     request srv js client ''POST'' ''/v1/memory/context'' (Some (json_of_ContextRequest req))"


definition deleteMemory ::
  "(http_request \<Rightarrow> 'r \<Rightarrow> deleted_reply fetch_outcome \<times> 'r) \<Rightarrow> js_env \<Rightarrow> MaasvClient
     \<Rightarrow> string \<Rightarrow> 'r world \<Rightarrow> (error + deleted_reply) \<times> 'r world" where
  "deleteMemory srv js client memoryId =
     request srv js client ''DELETE'' (''/v1/memory/'' @ memoryId) None"


subsection \<open>Extraction\<close>

text \<open>
  The plugin never looks into an \<^verbatim>\<open>ExtractionResult\<close>, a \<^verbatim>\<open>HealthResponse\<close> or a
  \<^verbatim>\<open>StatsResponse\<close> in the code modelled here; their type is left open. The method
  \<^verbatim>\<open>extract\<close> is \<open>client_extract\<close> here, its name being a keyword of Isabelle.
\<close>

definition client_extract ::
  "(http_request \<Rightarrow> 'r \<Rightarrow> 'a fetch_outcome \<times> 'r) \<Rightarrow> js_env \<Rightarrow> MaasvClient
     \<Rightarrow> string \<Rightarrow> string option \<Rightarrow> 'r world \<Rightarrow> (error + 'a) \<times> 'r world" where
  "client_extract srv js client text topic =
     request srv js client ''POST'' ''/v1/extract''
       (Some (obj [(''text'', Some (JStr text)),
                   (''topic'', Some (JStr (case topic of None \<Rightarrow> [] | Some t \<Rightarrow> t)))]))"

subsection \<open>Graph\<close>


definition searchEntities ::
  "(http_request \<Rightarrow> 'r \<Rightarrow> Entity results_reply fetch_outcome \<times> 'r) \<Rightarrow> js_env \<Rightarrow> MaasvClient
     \<Rightarrow> string \<Rightarrow> string option \<Rightarrow> real option \<Rightarrow> 'r world
     \<Rightarrow> (error + Entity results_reply) \<times> 'r world" where
  "searchEntities srv js client query entityType limit =
     request srv js client ''POST'' ''/v1/graph/entities/search''
       (Some (obj [(''query'', Some (JStr query)),
                   (''entity_type'', map_option JStr entityType),
                   (''limit'', Some (JNum (case limit of None \<Rightarrow> 10 | Some n \<Rightarrow> n)))]))"

definition getEntityProfile ::
  "(http_request \<Rightarrow> 'r \<Rightarrow> EntityProfile fetch_outcome \<times> 'r) \<Rightarrow> js_env \<Rightarrow> MaasvClient
     \<Rightarrow> string \<Rightarrow> 'r world \<Rightarrow> (error + EntityProfile) \<times> 'r world" where
  "getEntityProfile srv js client entityId =
     request srv js client ''GET'' (''/v1/graph/entities/'' @ entityId) None"

record RelationshipRequest =
  rr_subject_id :: string
  rr_predicate :: string
  rr_object_id :: "string option"
  rr_object_value :: "string option"
  rr_confidence :: "real option"
  rr_source :: "string option"

definition json_of_RelationshipRequest :: "RelationshipRequest \<Rightarrow> json" where
  "json_of_RelationshipRequest r = obj [
     (''subject_id'', Some (JStr (rr_subject_id r))),
     (''predicate'', Some (JStr (rr_predicate r))),
     (''object_id'', map_option JStr (rr_object_id r)),
     (''object_value'', map_option JStr (rr_object_value r)),
     (''confidence'', map_option JNum (rr_confidence r)),
     (''source'', map_option JStr (rr_source r))]"

definition addRelationship ::
  "(http_request \<Rightarrow> 'r \<Rightarrow> relationship_id_reply fetch_outcome \<times> 'r) \<Rightarrow> js_env
     \<Rightarrow> MaasvClient \<Rightarrow> RelationshipRequest \<Rightarrow> 'r world
     \<Rightarrow> (error + relationship_id_reply) \<times> 'r world" where
  "addRelationship srv js client req =
     request srv js client ''POST'' ''/v1/graph/relationships''
       (Some (json_of_RelationshipRequest req))"

subsection \<open>Wisdom\<close>

record ReasoningRequest =
  lr_action_type :: string
  lr_reasoning :: string
  lr_action_data :: "json option"
  lr_trigger :: "string option"
  lr_context :: "string option"
  lr_tags :: "string list option"

definition json_of_ReasoningRequest :: "ReasoningRequest \<Rightarrow> json" where
  "json_of_ReasoningRequest r = obj [
     (''action_type'', Some (JStr (lr_action_type r))),
     (''reasoning'', Some (JStr (lr_reasoning r))),
     (''action_data'', lr_action_data r),
     (''trigger'', map_option JStr (lr_trigger r)),
     (''context'', map_option JStr (lr_context r)),
     (''tags'', map_option (\<lambda>ts. JArr (map JStr ts)) (lr_tags r))]"

definition logReasoning ::
  "(http_request \<Rightarrow> 'r \<Rightarrow> wisdom_id_reply fetch_outcome \<times> 'r) \<Rightarrow> js_env \<Rightarrow> MaasvClient
     \<Rightarrow> ReasoningRequest \<Rightarrow> 'r world \<Rightarrow> (error + wisdom_id_reply) \<times> 'r world" where
  "logReasoning srv js client req =
     request srv js client ''POST'' ''/v1/wisdom/log'' (Some (json_of_ReasoningRequest req))"

definition recordOutcome ::
  "(http_request \<Rightarrow> 'r \<Rightarrow> updated_reply fetch_outcome \<times> 'r) \<Rightarrow> js_env \<Rightarrow> MaasvClient
     \<Rightarrow> string \<Rightarrow> string \<Rightarrow> string option \<Rightarrow> 'r world
     \<Rightarrow> (error + updated_reply) \<times> 'r world" where
  "recordOutcome srv js client wisdomId outcome details =
     request srv js client ''POST'' (''/v1/wisdom/'' @ wisdomId @ ''/outcome'')
       (Some (obj [(''outcome'', Some (JStr outcome)), (''details'', map_option JStr details)]))"

definition addFeedback ::
  "(http_request \<Rightarrow> 'r \<Rightarrow> updated_reply fetch_outcome \<times> 'r) \<Rightarrow> js_env \<Rightarrow> MaasvClient
     \<Rightarrow> string \<Rightarrow> real \<Rightarrow> string option \<Rightarrow> 'r world
     \<Rightarrow> (error + updated_reply) \<times> 'r world" where
  "addFeedback srv js client wisdomId score notes =
     request srv js client ''POST'' (''/v1/wisdom/'' @ wisdomId @ ''/feedback'')
       (Some (obj [(''score'', Some (JNum score)), (''notes'', map_option JStr notes)]))"

definition searchWisdom ::
  "(http_request \<Rightarrow> 'r \<Rightarrow> WisdomEntry results_reply fetch_outcome \<times> 'r) \<Rightarrow> js_env
     \<Rightarrow> MaasvClient \<Rightarrow> string \<Rightarrow> real option \<Rightarrow> 'r world
     \<Rightarrow> (error + WisdomEntry results_reply) \<times> 'r world" where
  "searchWisdom srv js client query limit =
     request srv js client ''POST'' ''/v1/wisdom/search''
       (Some (obj [(''query'', Some (JStr query)),
                   (''limit'', Some (JNum (case limit of None \<Rightarrow> 10 | Some n \<Rightarrow> n)))]))"

subsection \<open>Health\<close>



section \<open>The tools (tools/*.ts)\<close>

text \<open>
  A tool's \<^verbatim>\<open>execute\<close> resolves to \<^verbatim>\<open>{ content: [{ type: "text", text }] }\<close>. A result
  \<open>Inl e\<close> of an \<open>execute\<close> below is the promise rejecting with \<open>e\<close>: an \<^verbatim>\<open>await\<close>
  outside of any \<^verbatim>\<open>try\<close> hands the rejection on to the caller.
\<close>

datatype content_item = TextItem (item_text: string)

record tool_response =
  content :: "content_item list"

definition text_response :: "string \<Rightarrow> tool_response" where
  "text_response t = \<lparr>content = [TextItem t]\<rparr>"

subsection \<open>memory_search\<close>

text \<open>The callback of \<^verbatim>\<open>results.map((m, i) => ...)\<close>.\<close>

definition format_memory :: "js_env \<Rightarrow> ScoredMemory \<Rightarrow> nat \<Rightarrow> string" where
  "format_memory js m i =
     (let subject = (if truthy (mem_subject m) then ''['' @ the (mem_subject m) @ ''] '' else []);
          score = (case imp_score m of
                     None \<Rightarrow> []
                   | Some x \<Rightarrow> if x \<noteq> 0 then '' (score: '' @ to_fixed js x 3 @ '')'' else [])
      in number_to_string js (real (i + 1)) @ ''. '' @ subject @ mem_content m @ score
           @ ''\<newline>   id: '' @ mem_id m @ '' | category: '' @ mem_category m
           @ '' | confidence: '' @ number_to_string js (mem_confidence m))"

definition memory_search_execute ::
  "(http_request \<Rightarrow> 'r \<Rightarrow> ScoredMemory results_reply fetch_outcome \<times> 'r) \<Rightarrow> js_env
     \<Rightarrow> MaasvClient \<Rightarrow> SearchRequest \<Rightarrow> 'r world \<Rightarrow> (error + tool_response) \<times> 'r world" where
  "memory_search_execute srv js client params w =
     (case searchMemories srv js client
             \<lparr>q_query = q_query params,
              q_limit = Some (case q_limit params of None \<Rightarrow> 5 | Some l \<Rightarrow> l),
              q_category = q_category params,
              q_subject = q_subject params\<rparr> w of
        (Inl e, w') \<Rightarrow> (Inl e, w')
      | (Inr reply, w') \<Rightarrow>
          if count reply = 0 then (Inr (text_response ''No memories found.''), w')
          else
            (let formatted = join ''\<newline>\<newline>''
                   (map (\<lambda>(m, i). format_memory js m i)
                        (zip (results reply) [0 ..< length (results reply)]))
             in (Inr (text_response (''Found '' @ number_to_string js (count reply)
                        @ '' memories:\<newline>\<newline>'' @ formatted)), w')))"

subsection \<open>memory_store\<close>

record StoreParams =
  sp_content :: string
  sp_category :: string
  sp_subject :: "string option"
  sp_confidence :: "real option"

definition memory_store_execute ::
  "(http_request \<Rightarrow> 'r \<Rightarrow> memory_id_reply fetch_outcome \<times> 'r) \<Rightarrow> js_env \<Rightarrow> MaasvClient
     \<Rightarrow> StoreParams \<Rightarrow> 'r world \<Rightarrow> (error + tool_response) \<times> 'r world" where
  "memory_store_execute srv js client params w =
     (case storeMemory srv js client
             \<lparr>sr_content = sp_content params,
              sr_category = sp_category params,
              sr_subject = sp_subject params,
              sr_source = Some ''openclaw'',
              sr_confidence = Some (case sp_confidence params of None \<Rightarrow> 1.0 | Some c \<Rightarrow> c),
              sr_metadata = None\<rparr> w of
        (Inl e, w') \<Rightarrow> (Inl e, w')
      | (Inr result, w') \<Rightarrow>
          (Inr (text_response (''Stored memory: '' @ memory_id result)), w'))"

subsection \<open>memory_forget\<close>

definition memory_forget_execute ::
  "(http_request \<Rightarrow> 'r \<Rightarrow> deleted_reply fetch_outcome \<times> 'r) \<Rightarrow> js_env \<Rightarrow> MaasvClient
     \<Rightarrow> string \<Rightarrow> 'r world \<Rightarrow> (error + tool_response) \<times> 'r world" where
  "memory_forget_execute srv js client params_id w =
     (case deleteMemory srv js client params_id w of
        (Inr _, w') \<Rightarrow> (Inr (text_response (''Deleted memory: '' @ params_id)), w')
      | (Inl err, w') \<Rightarrow>
          (Inr (text_response (''Failed to delete memory '' @ params_id @ '': '' @ message err)), w'))"

subsection \<open>memory_graph\<close>

datatype graph_action = Search | Profile | Add_relationship

record GraphParams =
  gp_action :: graph_action
  gp_query :: "string option"
  gp_entity_id :: "string option"
  gp_entity_type :: "string option"
  gp_subject_id :: "string option"
  gp_predicate :: "string option"
  gp_object_id :: "string option"
  gp_object_value :: "string option"

text \<open>
  The dash of the entity line is the one character U+2014; it is kept as one element so
  that lengths agree with the source.
\<close>

definition em_dash :: char where
  "em_dash = CHR 0x97"

definition format_entity :: "Entity \<Rightarrow> string" where
  "format_entity e =
     ''- '' @ ent_name e @ '' ('' @ ent_entity_type e @ '') '' @ [em_dash] @ '' id: '' @ ent_id e"

text \<open>
  \<^verbatim>\<open>rel.object_name ?? rel.object_value ?? rel.object_id\<close>, as the template prints it: when
  all three are nullish the text is \<^verbatim>\<open>null\<close>.
\<close>

definition relationship_target :: "Relationship \<Rightarrow> string" where
  "relationship_target rel =
     (case rel_object_name rel of
        Some n \<Rightarrow> n
      | None \<Rightarrow>
          (case rel_object_value rel of
             Some v \<Rightarrow> v
           | None \<Rightarrow> (case rel_object_id rel of Some i \<Rightarrow> i | None \<Rightarrow> ''null'')))"

definition profile_lines :: "EntityProfile \<Rightarrow> string list" where
  "profile_lines profile =
     (''# '' @ ent_name (entity profile) @ '' ('' @ ent_entity_type (entity profile) @ '')'')
     # concat (map (\<lambda>(pred, rels).
                      map (\<lambda>rel. ''- '' @ pred @ '': '' @ relationship_target rel) rels)
                   (relationships profile))"

text \<open>
  The client of the source talks to one network; the model passes it once for each type of
  reply that the tool reads (\<open>srv_s\<close>, \<open>srv_p\<close>, \<open>srv_r\<close>). An invocation uses at most one.
\<close>

definition memory_graph_execute ::
  "(http_request \<Rightarrow> 'r \<Rightarrow> Entity results_reply fetch_outcome \<times> 'r)
     \<Rightarrow> (http_request \<Rightarrow> 'r \<Rightarrow> EntityProfile fetch_outcome \<times> 'r)
     \<Rightarrow> (http_request \<Rightarrow> 'r \<Rightarrow> relationship_id_reply fetch_outcome \<times> 'r)
     \<Rightarrow> js_env \<Rightarrow> MaasvClient \<Rightarrow> GraphParams \<Rightarrow> 'r world
     \<Rightarrow> (error + tool_response) \<times> 'r world" where
  "memory_graph_execute srv_s srv_p srv_r js client params w =
     (case gp_action params of
        Search \<Rightarrow>
          if \<not> truthy (gp_query params) then
            (Inr (text_response ''Error: 'query' required for search action''), w)
          else
            (case searchEntities srv_s js client (the (gp_query params))
                    (gp_entity_type params) None w of
               (Inl e, w') \<Rightarrow> (Inl e, w')
             | (Inr reply, w') \<Rightarrow>
                 if count reply = 0 then (Inr (text_response ''No entities found.''), w')
                 else
                   (let formatted = join ''\<newline>'' (map format_entity (results reply))
                    in (Inr (text_response (''Found '' @ number_to_string js (count reply)
                               @ '' entities:\<newline>'' @ formatted)), w')))
      | Profile \<Rightarrow>
          if \<not> truthy (gp_entity_id params) then
            (Inr (text_response ''Error: 'entity_id' required for profile action''), w)
          else
            (case getEntityProfile srv_p js client (the (gp_entity_id params)) w of
               (Inl e, w') \<Rightarrow> (Inl e, w')
             | (Inr profile, w') \<Rightarrow>
                 (Inr (text_response (join ''\<newline>'' (profile_lines profile))), w'))
      | Add_relationship \<Rightarrow>
          if \<not> truthy (gp_subject_id params) \<or> \<not> truthy (gp_predicate params) then
            (Inr (text_response
               ''Error: 'subject_id' and 'predicate' required for add_relationship''), w)
          else if \<not> truthy (gp_object_id params) \<and> \<not> truthy (gp_object_value params) then
            (Inr (text_response ''Error: either 'object_id' or 'object_value' required''), w)
          else
            (case addRelationship srv_r js client
                    \<lparr>rr_subject_id = the (gp_subject_id params),
                     rr_predicate = the (gp_predicate params),
                     rr_object_id = gp_object_id params,
                     rr_object_value = gp_object_value params,
                     rr_confidence = None,
                     rr_source = None\<rparr> w of
               (Inl e, w') \<Rightarrow> (Inl e, w')
             | (Inr result, w') \<Rightarrow>
                 (Inr (text_response (''Created relationship: '' @ relationship_id result)),
                  w')))"

subsection \<open>memory_wisdom\<close>

datatype wisdom_action = Log | Outcome | Feedback | WSearch

record WisdomParams =
  wp_action :: wisdom_action
  wp_action_type :: "string option"
  wp_reasoning :: "string option"
  wp_trigger :: "string option"
  wp_context :: "string option"
  wp_wisdom_id :: "string option"
  wp_outcome :: "string option"
  wp_details :: "string option"
  wp_score :: "real option"
  wp_notes :: "string option"
  wp_query :: "string option"

definition format_wisdom :: "js_env \<Rightarrow> WisdomEntry \<Rightarrow> string" where
  "format_wisdom js w =
     (let scoreStr = (case wis_feedback_score w of
                        None \<Rightarrow> []
                      | Some x \<Rightarrow> '' ('' @ number_to_string js x @ ''/5)'')
      in ''- ['' @ wis_outcome w @ scoreStr @ ''] '' @ wis_action_type w @ '': ''
           @ slice (wis_reasoning w) 0 200)"

definition memory_wisdom_execute ::
  "(http_request \<Rightarrow> 'r \<Rightarrow> wisdom_id_reply fetch_outcome \<times> 'r)
     \<Rightarrow> (http_request \<Rightarrow> 'r \<Rightarrow> updated_reply fetch_outcome \<times> 'r)
     \<Rightarrow> (http_request \<Rightarrow> 'r \<Rightarrow> WisdomEntry results_reply fetch_outcome \<times> 'r)
     \<Rightarrow> js_env \<Rightarrow> MaasvClient \<Rightarrow> WisdomParams \<Rightarrow> 'r world
     \<Rightarrow> (error + tool_response) \<times> 'r world" where
  "memory_wisdom_execute srv_l srv_u srv_s js client params w =
     (case wp_action params of
        Log \<Rightarrow>
          if \<not> truthy (wp_action_type params) \<or> \<not> truthy (wp_reasoning params) then
            (Inr (text_response
               ''Error: 'action_type' and 'reasoning' required for log action''), w)
          else
            (case logReasoning srv_l js client
                    \<lparr>lr_action_type = the (wp_action_type params),
                     lr_reasoning = the (wp_reasoning params),
                     lr_action_data = None,
                     lr_trigger = wp_trigger params,
                     lr_context = wp_context params,
                     lr_tags = None\<rparr> w of
               (Inl e, w') \<Rightarrow> (Inl e, w')
             | (Inr result, w') \<Rightarrow>
                 (Inr (text_response (''Logged reasoning: '' @ wisdom_id result)), w'))
      | Outcome \<Rightarrow>
          if \<not> truthy (wp_wisdom_id params) \<or> \<not> truthy (wp_outcome params) then
            (Inr (text_response ''Error: 'wisdom_id' and 'outcome' required''), w)
          else
            (case recordOutcome srv_u js client (the (wp_wisdom_id params))
                    (the (wp_outcome params)) (wp_details params) w of
               (Inl e, w') \<Rightarrow> (Inl e, w')
             | (Inr _, w') \<Rightarrow>
                 (Inr (text_response (''Recorded outcome for '' @ the (wp_wisdom_id params)
                         @ '': '' @ the (wp_outcome params))), w'))
      | Feedback \<Rightarrow>
          if \<not> truthy (wp_wisdom_id params) \<or> wp_score params = None then
            (Inr (text_response ''Error: 'wisdom_id' and 'score' required''), w)
          else
            (case addFeedback srv_u js client (the (wp_wisdom_id params))
                    (the (wp_score params)) (wp_notes params) w of
               (Inl e, w') \<Rightarrow> (Inl e, w')
             | (Inr _, w') \<Rightarrow>
                 (Inr (text_response (''Added feedback for '' @ the (wp_wisdom_id params)
                         @ '': '' @ number_to_string js (the (wp_score params)) @ ''/5'')), w'))
      | WSearch \<Rightarrow>
          if \<not> truthy (wp_query params) then
            (Inr (text_response ''Error: 'query' required for search action''), w)
          else
            (case searchWisdom srv_s js client (the (wp_query params)) None w of
               (Inl e, w') \<Rightarrow> (Inl e, w')
             | (Inr reply, w') \<Rightarrow>
                 if count reply = 0 then
                   (Inr (text_response ''No wisdom entries found.''), w')
                 else
                   (let formatted = join ''\<newline>'' (map (format_wisdom js) (results reply))
                    in (Inr (text_response (''Found '' @ number_to_string js (count reply)
                               @ '' wisdom entries:\<newline>'' @ formatted)), w'))))"

section \<open>The hooks (index.ts)\<close>

text \<open>
  The host's event, decoded: \<^verbatim>\<open>event?.userMessage\<close> when it is a string, and
  \<^verbatim>\<open>event?.context?.messages\<close> when it is there. The content of a message is a string
  or some other value of a type \<open>'c\<close>; \<^verbatim>\<open>JSON.stringify\<close> on such a value is the
  parameter \<open>stringify\<close>, whose result \<open>None\<close> is \<^verbatim>\<open>undefined\<close>.
\<close>

datatype 'c message_content = StringContent string | OtherContent 'c

record 'c message =
  role :: string
  msg_content :: "'c message_content"

record 'c event =
  userMessage :: "string option"
  messages :: "'c message list option"

definition content_string :: "('c \<Rightarrow> string option) \<Rightarrow> 'c message \<Rightarrow> string option" where
  "content_string stringify m =
     (case msg_content m of StringContent s \<Rightarrow> Some s | OtherContent c \<Rightarrow> stringify c)"

text \<open>The loop of \<^verbatim>\<open>extractUserMessage\<close> runs from the last message to the first.\<close>

definition extractUserMessage :: "('c \<Rightarrow> string option) \<Rightarrow> 'c event \<Rightarrow> string option" where
  "extractUserMessage stringify ev =
     (case userMessage ev of
        Some s \<Rightarrow> Some s
      | None \<Rightarrow>
          (case messages ev of
             None \<Rightarrow> None
           | Some ms \<Rightarrow>
               (case List.find (\<lambda>m. role m = ''user'') (rev ms) of
                  None \<Rightarrow> None
                | Some m \<Rightarrow> content_string stringify m)))"

definition conversation_part :: "('c \<Rightarrow> string option) \<Rightarrow> 'c message \<Rightarrow> string" where
  "conversation_part stringify m =
     role m @ '': '' @ (case content_string stringify m of None \<Rightarrow> ''undefined'' | Some s \<Rightarrow> s)"

definition extractConversation :: "('c \<Rightarrow> string option) \<Rightarrow> 'c event \<Rightarrow> string option" where
  "extractConversation stringify ev =
     (case messages ev of
        None \<Rightarrow> None
      | Some ms \<Rightarrow>
          (let parts = map (conversation_part stringify)
                 (filter (\<lambda>m. role m = ''user'' \<or> role m = ''assistant'') ms)
           in if length parts > 0 then Some (join ''\<newline>\<newline>'' parts) else None))"

text \<open>
  The handlers are closures of \<^verbatim>\<open>register\<close>: \<open>config\<close> is the merged configuration and
  the client is \<open>new_MaasvClient config\<close>. A handler returns \<open>Inr\<close> of its value; a
  \<^verbatim>\<open>catch\<close> turns the \<open>Inl\<close> of the guarded call into a warning.
\<close>

record recall_result =
  prependContext :: string

text \<open>The constant \<^verbatim>\<open>truncated\<close> of the auto-recall hook, for \<open>maxChars\<close> characters.\<close>

definition truncated :: "real \<Rightarrow> string \<Rightarrow> string" where
  "truncated maxChars ctx =
     (if real (length ctx) > maxChars then slice ctx 0 maxChars @ ''\<newline>[truncated]''
      else ctx)"

definition before_agent_start ::
  "(http_request \<Rightarrow> 'r \<Rightarrow> context_reply fetch_outcome \<times> 'r) \<Rightarrow> js_env
     \<Rightarrow> ('c \<Rightarrow> string option) \<Rightarrow> PluginConfig \<Rightarrow> 'c event \<Rightarrow> 'r world
     \<Rightarrow> (error + recall_result option) \<times> 'r world" where
  "before_agent_start srv js stringify config ev w =
     (if \<not> autoRecall config then (Inr None, w)
      else
        (let userMessage = extractUserMessage stringify ev in
         if \<not> truthy userMessage then (Inr None, w)
         else
           (case getContext srv js (new_MaasvClient config)
                   \<lparr>c_query = userMessage,
                    c_core_limit = Some (maxRecallResults config),
                    c_relevant_limit = Some (of_int \<lceil>maxRecallResults config / 2\<rceil>),
                    c_use_semantic = Some True\<rparr> w of
              (Inl err, w') \<Rightarrow>
                (Inr None, logger_warn (''Auto-recall failed: '' @ message err) w')
            | (Inr reply, w') \<Rightarrow>
                (let ctx = reply_context reply in
                 if length ctx > 0 then
                   (let maxChars = maxRecallTokens config * 4
                    in (Inr (Some \<lparr>prependContext = ''<long_term_memory>\<newline>''
                               @ truncated maxChars ctx @ ''\<newline></long_term_memory>''\<rparr>), w'))
                 else (Inr None, w')))))"

definition agent_end ::
  "(http_request \<Rightarrow> 'r \<Rightarrow> 'a fetch_outcome \<times> 'r) \<Rightarrow> js_env
     \<Rightarrow> ('c \<Rightarrow> string option) \<Rightarrow> PluginConfig \<Rightarrow> 'c event \<Rightarrow> 'r world
     \<Rightarrow> (error + unit) \<times> 'r world" where
  "agent_end srv js stringify config ev w =
     (if \<not> autoCapture config then (Inr (), w)
      else
        (let conversationText = extractConversation stringify ev in
         if \<not> truthy conversationText \<or> length (the conversationText) < 50 then (Inr (), w)
         else
           (case client_extract srv js (new_MaasvClient config) (the conversationText) None w of
              (Inl err, w') \<Rightarrow>
                (Inr (), logger_warn (''Auto-capture failed: '' @ message err) w')
            | (Inr _, w') \<Rightarrow> (Inr (), w'))))"

section \<open>Properties and fixtures\<close>



text \<open>
  A remote side that cannot be reached: every \<^verbatim>\<open>fetch\<close> rejects. And a number printer
  for closed examples, right on the natural numbers.
\<close>

definition unreachable :: "http_request \<Rightarrow> unit \<Rightarrow> 'a fetch_outcome \<times> unit" where
  "unreachable req r = (Rejected (Error ''fetch failed''), r)"

definition digit :: "nat \<Rightarrow> char" where
  "digit d = ''0123456789'' ! d"

fun decimal :: "nat \<Rightarrow> string" where
  "decimal n = (if n < 10 then [digit n] else decimal (n div 10) @ [digit (n mod 10)])"

declare decimal.simps [simp del]

definition js_naturals :: js_env where
  "js_naturals = \<lparr>
     number_to_string = (\<lambda>x. decimal (nat \<lfloor>x\<rfloor>)),
     to_fixed = (\<lambda>x d. decimal (nat \<lfloor>x\<rfloor>) @ (if d = 0 then [] else ''.'' @ replicate d (CHR ''0'')))\<rparr>"

definition start :: "unit world" where
  "start = \<lparr>sent = [], warnings = [], remote = ()\<rparr>"




text \<open>
  A string parameter of a tool is missing when it is \<^verbatim>\<open>undefined\<close> or empty: the test
  \<^verbatim>\<open>!params.x\<close> of the tools. The two predicates say, action by action, that a
  parameter which the action requires is missing.
\<close>

definition missing :: "string option \<Rightarrow> bool" where
  "missing p = (\<not> truthy p)"

definition graph_missing :: "GraphParams \<Rightarrow> bool" where
  "graph_missing p =
     (case gp_action p of
        Search \<Rightarrow> missing (gp_query p)
      | Profile \<Rightarrow> missing (gp_entity_id p)
      | Add_relationship \<Rightarrow>
          missing (gp_subject_id p) \<or> missing (gp_predicate p)
          \<or> (missing (gp_object_id p) \<and> missing (gp_object_value p)))"

definition wisdom_missing :: "WisdomParams \<Rightarrow> bool" where
  "wisdom_missing p =
     (case wp_action p of
        Log \<Rightarrow> missing (wp_action_type p) \<or> missing (wp_reasoning p)
      | Outcome \<Rightarrow> missing (wp_wisdom_id p) \<or> missing (wp_outcome p)
      | Feedback \<Rightarrow> missing (wp_wisdom_id p) \<or> wp_score p = None
      | WSearch \<Rightarrow> missing (wp_query p))"

text \<open>
  The outcome of an \<open>execute\<close> started in world \<open>w\<close> is an error reply: it did not
  throw, its response is one text that begins with \<^verbatim>\<open>Error:\<close>, and the world is still
  \<open>w\<close>, so nothing was sent.
\<close>

definition error_reply :: "(error + tool_response) \<times> 'r world \<Rightarrow> 'r world \<Rightarrow> bool" where
  "error_reply out w =
     (case out of
        (Inl e, w') \<Rightarrow> False
      | (Inr r, w') \<Rightarrow>
          w' = w \<and> (case content r of [TextItem t] \<Rightarrow> prefix ''Error:'' t | _ \<Rightarrow> False))"

definition no_graph_params :: GraphParams where
  "no_graph_params = \<lparr>gp_action = Search, gp_query = None, gp_entity_id = None,
     gp_entity_type = None, gp_subject_id = None, gp_predicate = None, gp_object_id = None,
     gp_object_value = None\<rparr>"

definition no_wisdom_params :: WisdomParams where
  "no_wisdom_params = \<lparr>wp_action = WSearch, wp_action_type = None, wp_reasoning = None,
     wp_trigger = None, wp_context = None, wp_wisdom_id = None, wp_outcome = None,
     wp_details = None, wp_score = None, wp_notes = None, wp_query = None\<rparr>"

definition coffee_params :: StoreParams where
  "coffee_params = \<lparr>sp_content = ''likes coffee'', sp_category = ''preference'',
     sp_subject = None, sp_confidence = None\<rparr>"

definition coffee_query :: SearchRequest where
  "coffee_query = \<lparr>q_query = ''coffee'', q_limit = None, q_category = None, q_subject = None\<rparr>"

text \<open>
  The outcome of a \<^verbatim>\<open>fetch\<close> makes \<^verbatim>\<open>request\<close> throw: the fetch rejects, the status
  is not a success, or the body does not parse.
\<close>

definition failed :: "'a fetch_outcome \<Rightarrow> bool" where
  "failed out =
     (case out of Rejected e \<Rightarrow> True | Response st txt parsed \<Rightarrow> \<not> ok st \<or> isl parsed)"

text \<open>The event has a message of the user or of the assistant.\<close>

definition has_conversation :: "'c event \<Rightarrow> bool" where
  "has_conversation ev =
     (case messages ev of
        None \<Rightarrow> False
      | Some ms \<Rightarrow> list_ex (\<lambda>m. role m = ''user'' \<or> role m = ''assistant'') ms)"

text \<open>Fixtures for the hooks: events whose other contents are of type \<open>unit\<close>.\<close>

definition no_stringify :: "unit \<Rightarrow> string option" where
  "no_stringify c = None"

definition asking :: "unit event" where
  "asking = \<lparr>userMessage = Some ''what do I like?'', messages = None\<rparr>"

definition short_talk :: "unit event" where
  "short_talk = \<lparr>userMessage = None,
     messages = Some [\<lparr>role = ''user'', msg_content = StringContent ''hi''\<rparr>,
                      \<lparr>role = ''assistant'', msg_content = StringContent ''hello''\<rparr>]\<rparr>"

definition long_talk :: "unit event" where
  "long_talk = \<lparr>userMessage = None,
     messages = Some [\<lparr>role = ''system'', msg_content = StringContent ''be brief''\<rparr>,
                      \<lparr>role = ''user'', msg_content = StringContent ''I moved to Lisbon last month''\<rparr>,
                      \<lparr>role = ''assistant'', msg_content = StringContent ''Noted, you live in Lisbon now''\<rparr>]\<rparr>"

definition alphabet_service :: "http_request \<Rightarrow> unit \<Rightarrow> context_reply fetch_outcome \<times> unit" where
  "alphabet_service req r =
     (Response 200 None (Inr \<lparr>reply_context = ''abcdefghijklmnopqrstuvwxyz''\<rparr>), r)"

definition small_budget :: PluginConfig where
  "small_budget = DEFAULT_CONFIG\<lparr>maxRecallTokens := 2\<rparr>"

definition negative_budget :: PluginConfig where
  "negative_budget = DEFAULT_CONFIG\<lparr>maxRecallTokens := - 1\<rparr>"

section \<open>The remote service\<close>

text \<open>
  The service that answers the requests (maasv-server) is a separate program; this
  repository holds only its caller. The two contracts of the specification that are about
  it, deduplication on store (4.2) and temporal graph versioning (4.3), are modelled here
  from the specification, as functions on the state of the service, and wrapped as
  endpoints that the client of the plugin can be run against.
\<close>

subsection \<open>Reading a request body\<close>

text \<open>
  Modelled from the spec: how the remote service, which is not in this repository, reads
  the JSON bodies of section 6. A store request needs its content and category, a
  relationship request its subject and predicate; the other keys are optional.
\<close>

fun json_field :: "json \<Rightarrow> string \<Rightarrow> json option" where
  "json_field (JObj kvs) k = map_of kvs k"
| "json_field _ k = None"

definition string_field :: "json \<Rightarrow> string \<Rightarrow> string option" where
  "string_field j k = (case json_field j k of Some (JStr s) \<Rightarrow> Some s | _ \<Rightarrow> None)"

definition number_field :: "json \<Rightarrow> string \<Rightarrow> real option" where
  "number_field j k = (case json_field j k of Some (JNum x) \<Rightarrow> Some x | _ \<Rightarrow> None)"

definition decode_StoreRequest :: "json \<Rightarrow> StoreRequest option" where
  "decode_StoreRequest j =
     (case (string_field j ''content'', string_field j ''category'') of
        (Some c, Some cat) \<Rightarrow>
          Some \<lparr>sr_content = c, sr_category = cat,
                sr_subject = string_field j ''subject'',
                sr_source = string_field j ''source'',
                sr_confidence = number_field j ''confidence'',
                sr_metadata = json_field j ''metadata''\<rparr>
      | _ \<Rightarrow> None)"

definition decode_RelationshipRequest :: "json \<Rightarrow> RelationshipRequest option" where
  "decode_RelationshipRequest j =
     (case (string_field j ''subject_id'', string_field j ''predicate'') of
        (Some s, Some p) \<Rightarrow>
          Some \<lparr>rr_subject_id = s, rr_predicate = p,
                rr_object_id = string_field j ''object_id'',
                rr_object_value = string_field j ''object_value'',
                rr_confidence = number_field j ''confidence'',
                rr_source = string_field j ''source''\<rparr>
      | _ \<Rightarrow> None)"

text \<open>
  Modelled from the spec: the remote service takes the id of \<^verbatim>\<open>/v1/graph/entities/{id}\<close>
  (section 6) from the URL, as the part after its last slash.
\<close>

definition last_segment :: "string \<Rightarrow> string" where
  "last_segment url = rev (takeWhile (\<lambda>c. c \<noteq> CHR ''/'') (rev url))"

subsection \<open>Deduplication on store\<close>

text \<open>
  Modelled from the spec: a memory as the remote service keeps it, with the fields of
  section 3 that a store request fills and the access count.
\<close>

record StoredMemory =
  sm_id :: string
  sm_content :: string
  sm_category :: string
  sm_subject :: "string option"
  sm_source :: "string option"
  sm_confidence :: real
  sm_access_count :: nat

text \<open>
  Modelled from the spec: the store operation of the remote service, which is not in this
  repository. Section 4.2: if an existing memory's embedding distance to the new content
  is below a fixed near-duplicate threshold, return the existing memory's ID without
  creating a new record; otherwise insert a new memory with access_count = 0. The
  distance between the embeddings of two texts (\<open>gap\<close>), the threshold and the
  generator of identifiers (\<open>new_id\<close>) are parameters; the comment of memory-store.ts
  gives 0.05 for the threshold. When several memories are that near, the one stored first
  is taken.
\<close>

definition store_memory ::
  "(string \<Rightarrow> string \<Rightarrow> real) \<Rightarrow> real \<Rightarrow> (nat \<Rightarrow> string) \<Rightarrow> StoreRequest
     \<Rightarrow> StoredMemory list \<Rightarrow> string \<times> StoredMemory list" where
  "store_memory gap threshold new_id req ms =
     (case List.find (\<lambda>m. gap (sm_content m) (sr_content req) < threshold) ms of
        Some m \<Rightarrow> (sm_id m, ms)
      | None \<Rightarrow>
          (let m = \<lparr>sm_id = new_id (length ms),
                    sm_content = sr_content req,
                    sm_category = sr_category req,
                    sm_subject = sr_subject req,
                    sm_source = sr_source req,
                    sm_confidence = (case sr_confidence req of None \<Rightarrow> 1 | Some c \<Rightarrow> c),
                    sm_access_count = 0\<rparr>
           in (sm_id m, ms @ [m])))"

text \<open>
  Modelled from the spec: the endpoint \<^verbatim>\<open>POST /v1/memory/store\<close> of section 6, which
  answers with the identifier; a body that is no store request is a business error of
  section 7, a status that is not a success.
\<close>

definition store_endpoint ::
  "(string \<Rightarrow> string \<Rightarrow> real) \<Rightarrow> real \<Rightarrow> (nat \<Rightarrow> string) \<Rightarrow> http_request
     \<Rightarrow> StoredMemory list \<Rightarrow> memory_id_reply fetch_outcome \<times> StoredMemory list" where
  "store_endpoint gap threshold new_id req ms =
     (case Option.bind (req_body req) decode_StoreRequest of
        None \<Rightarrow> (Response 422 (Some ''invalid store request'') (Inl (Error ''no reply'')), ms)
      | Some r \<Rightarrow>
          (let (mid, ms') = store_memory gap threshold new_id r ms
           in (Response 200 None (Inr \<lparr>memory_id = mid\<rparr>), ms')))"

subsection \<open>Temporal graph versioning\<close>

text \<open>
  Modelled from the spec: the knowledge graph of the remote service (sections 2 and 3),
  its entities and its relationships in the order in which they were opened, and a count
  of the changes that stands for the time. A relationship is currently valid when its
  \<open>valid_to\<close> is null.
\<close>

record Graph =
  g_entities :: "Entity list"
  g_relationships :: "Relationship list"
  g_clock :: nat

definition currently_valid :: "Relationship \<Rightarrow> bool" where
  "currently_valid r = (rel_valid_to r = None)"

definition about :: "string \<Rightarrow> string \<Rightarrow> Relationship \<Rightarrow> bool" where
  "about subject predicate r = (rel_subject_id r = subject \<and> rel_predicate r = predicate)"

definition same_object :: "RelationshipRequest \<Rightarrow> Relationship \<Rightarrow> bool" where
  "same_object req r =
     (rel_object_id r = rr_object_id req \<and> rel_object_value r = rr_object_value req)"

text \<open>
  Modelled from the spec: \<^verbatim>\<open>add_relationship\<close> of the remote service, which is not in
  this repository. Section 4.3: if a currently-valid relationship with the same (subject,
  predicate) already exists and the new object differs, close the old relationship (set
  valid_to = now) and open a new one; if the object is unchanged, it is a no-op returning
  the existing ID. Section 3: superseding never mutates history in place. With no such
  relationship a new one is opened. The old relationship is every currently-valid one of
  the subject and predicate; the object is compared with the first of them. The generator of identifiers and the clock
  (\<open>timestamp\<close> of the count of changes so far) are parameters.
\<close>

definition add_relationship ::
  "(nat \<Rightarrow> string) \<Rightarrow> (nat \<Rightarrow> string) \<Rightarrow> RelationshipRequest \<Rightarrow> Graph \<Rightarrow> string \<times> Graph" where
  "add_relationship new_id timestamp req g =
     (let now = timestamp (g_clock g);
          current = (\<lambda>r. currently_valid r \<and> about (rr_subject_id req) (rr_predicate req) r);
          opened = \<lparr>rel_id = new_id (length (g_relationships g)),
                    rel_subject_id = rr_subject_id req,
                    rel_predicate = rr_predicate req,
                    rel_object_id = rr_object_id req,
                    rel_object_value = rr_object_value req,
                    rel_valid_from = now,
                    rel_valid_to = None,
                    rel_confidence = (case rr_confidence req of None \<Rightarrow> 1 | Some c \<Rightarrow> c),
                    rel_subject_name = None,
                    rel_object_name = None\<rparr>
      in case List.find current (g_relationships g) of
           None \<Rightarrow>
             (rel_id opened,
              g\<lparr>g_relationships := g_relationships g @ [opened], g_clock := Suc (g_clock g)\<rparr>)
         | Some old \<Rightarrow>
             if same_object req old then (rel_id old, g)
             else
               (rel_id opened,
                g\<lparr>g_relationships :=
                     map (\<lambda>r. if current r then r\<lparr>rel_valid_to := Some now\<rparr> else r)
                       (g_relationships g) @ [opened],
                  g_clock := Suc (g_clock g)\<rparr>))"

text \<open>
  Modelled from the spec: \<^verbatim>\<open>profile\<close> of the remote service, which is not in this
  repository. Section 4.3: returns the entity plus, for every predicate, the set of
  currently valid relationships grouped by predicate, plus a list of related entities
  reachable via those relationships. An unknown entity has no profile.
\<close>

definition profile :: "string \<Rightarrow> Graph \<Rightarrow> EntityProfile option" where
  "profile entity_id g =
     (case List.find (\<lambda>e. ent_id e = entity_id) (g_entities g) of
        None \<Rightarrow> None
      | Some e \<Rightarrow>
          (let valid = filter (\<lambda>r. rel_subject_id r = entity_id \<and> currently_valid r)
                         (g_relationships g)
           in Some \<lparr>entity = e,
                    relationships =
                      map (\<lambda>p. (p, filter (\<lambda>r. rel_predicate r = p) valid))
                        (remdups (map rel_predicate valid)),
                    related_entities =
                      filter (\<lambda>e'. Some (ent_id e') \<in> set (map rel_object_id valid))
                        (g_entities g)\<rparr>))"

text \<open>
  Modelled from the spec: the endpoints \<^verbatim>\<open>POST /v1/graph/relationships\<close> and
  \<^verbatim>\<open>GET /v1/graph/entities/{id}\<close> of section 6; a malformed body and an unknown entity
  are errors of section 7, statuses that are not a success.
\<close>

definition relationship_endpoint ::
  "(nat \<Rightarrow> string) \<Rightarrow> (nat \<Rightarrow> string) \<Rightarrow> http_request \<Rightarrow> Graph
     \<Rightarrow> relationship_id_reply fetch_outcome \<times> Graph" where
  "relationship_endpoint new_id timestamp req g =
     (case Option.bind (req_body req) decode_RelationshipRequest of
        None \<Rightarrow> (Response 422 (Some ''invalid relationship'') (Inl (Error ''no reply'')), g)
      | Some r \<Rightarrow>
          (let (rid, g') = add_relationship new_id timestamp r g
           in (Response 200 None (Inr \<lparr>relationship_id = rid\<rparr>), g')))"

definition profile_endpoint ::
  "http_request \<Rightarrow> Graph \<Rightarrow> EntityProfile fetch_outcome \<times> Graph" where
  "profile_endpoint req g =
     (case profile (last_segment (req_url req)) g of
        None \<Rightarrow> (Response 404 (Some ''entity not found'') (Inl (Error ''no reply'')), g)
      | Some p \<Rightarrow> (Response 200 None (Inr p), g))"

text \<open>
  The invariants of the relationships. The specification states the second (section 3: at
  most one relationship with the same subject, predicate and object is valid at a time);
  the first, at most one valid relationship for a subject and predicate, is what the
  contract of \<open>add_relationship\<close> maintains, and it implies the second.
\<close>

definition one_valid_per_key :: "Graph \<Rightarrow> bool" where
  "one_valid_per_key g =
     distinct (map (\<lambda>r. (rel_subject_id r, rel_predicate r))
                 (filter currently_valid (g_relationships g)))"

definition one_valid_per_fact :: "Graph \<Rightarrow> bool" where
  "one_valid_per_fact g =
     distinct (map (\<lambda>r. (rel_subject_id r, rel_predicate r, rel_object_id r, rel_object_value r))
                 (filter currently_valid (g_relationships g)))"

text \<open>The objects that are currently valid for a subject and predicate.\<close>

definition valid_objects :: "string \<Rightarrow> string \<Rightarrow> Graph \<Rightarrow> string option list" where
  "valid_objects subject predicate g =
     map rel_object_value
       (filter (\<lambda>r. currently_valid r \<and> about subject predicate r) (g_relationships g))"

text \<open>The invocation \<^verbatim>\<open>add_relationship(subject, predicate, object_value)\<close> of the tool.\<close>

definition relate :: "string \<Rightarrow> string \<Rightarrow> string \<Rightarrow> GraphParams" where
  "relate subject predicate object_value =
     no_graph_params\<lparr>gp_action := Add_relationship, gp_subject_id := Some subject,
       gp_predicate := Some predicate, gp_object_value := Some object_value\<rparr>"

definition profile_of :: "string \<Rightarrow> GraphParams" where
  "profile_of entity_id = no_graph_params\<lparr>gp_action := Profile, gp_entity_id := Some entity_id\<rparr>"

text \<open>Fixtures: an exact-match distance, identifiers and times by number, small states.\<close>

definition exact_distance :: "string \<Rightarrow> string \<Rightarrow> real" where
  "exact_distance a b = (if a = b then 0 else 1)"

definition numbered :: "string \<Rightarrow> nat \<Rightarrow> string" where
  "numbered label n = label @ decimal n"

definition empty_store :: "StoredMemory list world" where
  "empty_store = \<lparr>sent = [], warnings = [], remote = []\<rparr>"

definition alice :: Entity where
  "alice = \<lparr>ent_id = ''ent_1'', ent_name = ''Alice'', ent_entity_type = ''person'',
     ent_canonical_name = ''alice'', ent_metadata = None, ent_access_count = 0\<rparr>"

definition alice_graph :: "Graph world" where
  "alice_graph = \<lparr>sent = [], warnings = [],
     remote = \<lparr>g_entities = [alice], g_relationships = [], g_clock = 0\<rparr>\<rparr>"

subsection \<open>What the tools send to the service\<close>

text \<open>The store request that \<^verbatim>\<open>memory_store\<close> builds from its parameters.\<close>

definition store_request_of :: "StoreParams \<Rightarrow> StoreRequest" where
  "store_request_of params =
     \<lparr>sr_content = sp_content params,
      sr_category = sp_category params,
      sr_subject = sp_subject params,
      sr_source = Some ''openclaw'',
      sr_confidence = Some (case sp_confidence params of None \<Rightarrow> 1.0 | Some c \<Rightarrow> c),
      sr_metadata = None\<rparr>"

text \<open>A stored memory is a near duplicate of a text.\<close>

definition near_duplicate ::
  "(string \<Rightarrow> string \<Rightarrow> real) \<Rightarrow> real \<Rightarrow> string \<Rightarrow> StoredMemory \<Rightarrow> bool" where
  "near_duplicate gap threshold text m = (gap (sm_content m) text < threshold)"

text \<open>The relationship request that \<^verbatim>\<open>memory_graph\<close> builds for \<open>relate\<close>.\<close>

definition value_request :: "string \<Rightarrow> string \<Rightarrow> string \<Rightarrow> RelationshipRequest" where
  "value_request subject predicate object_value =
     \<lparr>rr_subject_id = subject, rr_predicate = predicate, rr_object_id = None,
      rr_object_value = Some object_value, rr_confidence = None, rr_source = None\<rparr>"

text \<open>A fixture: the entity search of the graph is out of reach.\<close>

definition entity_search_down ::
  "http_request \<Rightarrow> Graph \<Rightarrow> Entity results_reply fetch_outcome \<times> Graph" where
  "entity_search_down req g = (Rejected (Error ''fetch failed''), g)"

section \<open>The platform behind fetch\<close>

text \<open>
  \<^verbatim>\<open>request\<close> calls \<^verbatim>\<open>fetch(url, init)\<close> with a method, headers and a signal, and no
  \<^verbatim>\<open>redirect\<close> option. The platform then follows redirects (the HTTP-redirect fetch of
  the Fetch standard): when the server answers with a redirect status and a location, a
  further request goes to the location, and this at most 20 times for a call; a redirect
  beyond that is a network error. For 301 and 302 with a POST, and for 303 with a method
  other than GET and HEAD, the further request is a GET without the body and without the
  headers that describe a body; otherwise method, headers and body are kept.

  The platform is not part of the plugin. It is given here as one possible \<open>srv\<close> of
  \<open>fetch\<close>, whose state holds the HTTP requests made and the state of the server. The
  URL of a request is kept as the string it was given as: the platform's reading of a URL
  (dot segments, a query or fragment in the base, encoding) is not modelled, and nothing
  below is about the path that a server receives.
\<close>

datatype redirect_status = Moved_301 | Found_302 | See_Other_303 | Temporary_307 | Permanent_308











definition boom :: "http_request \<Rightarrow> unit \<Rightarrow> 'a fetch_outcome \<times> unit" where
  "boom req r = (Response 500 (Some ''boom'') (Inl (Error ''no reply'')), r)"


section \<open>Theorems\<close>

subsection \<open>The client\<close>

lemma request_snd:
  "snd (request srv js cl m p b w) =
     w\<lparr>sent := sent w @ [\<lparr>req_method = m, req_url = baseUrl cl @ p,
                            req_headers = headers cl, req_body = b\<rparr>],
       remote := snd (srv \<lparr>req_method = m, req_url = baseUrl cl @ p,
                           req_headers = headers cl, req_body = b\<rparr> (remote w))\<rparr>"
  by (simp add: request_def fetch_def Let_def split: prod.splits fetch_outcome.splits)

lemma request_sent:
  "sent (snd (request srv js cl m p b w)) =
     sent w @ [\<lparr>req_method = m, req_url = baseUrl cl @ p,
                 req_headers = headers cl, req_body = b\<rparr>]"
  by (simp add: request_snd)

lemma request_warnings: "warnings (snd (request srv js cl m p b w)) = warnings w"
  by (simp add: request_snd)


text \<open>
  The client puts an id into the path as it is, without encoding it. An id with dot
  segments therefore gives a URL string that begins as above but that a URL parser
  resolves to a path outside \<^verbatim>\<open>/v1\<close>; what the parser makes of the string is not
  modelled here.
\<close>

lemma unencoded_id_in_url:
  "map req_url (sent (snd (deleteMemory srv js (new_MaasvClient DEFAULT_CONFIG) ''../../x''
       start))) = [''http://127.0.0.1:18790/v1/memory/../../x'']"
  by (simp add: deleteMemory_def request_sent new_MaasvClient_def DEFAULT_CONFIG_def
      strip_trailing_slashes_def start_def)






subsection \<open>Configuration\<close>



subsection \<open>The tools\<close>

lemma request_unreachable:
  "request unreachable js cl m p b w =
     (Inl (Error ''fetch failed''),
      w\<lparr>sent := sent w @ [\<lparr>req_method = m, req_url = baseUrl cl @ p,
                             req_headers = headers cl, req_body = b\<rparr>]\<rparr>)"
  by (simp add: request_def fetch_def unreachable_def)

text \<open>
  C5. An invocation of \<^verbatim>\<open>memory_graph\<close> or of \<^verbatim>\<open>memory_wisdom\<close> whose action misses
  a parameter it requires returns a text that begins with \<^verbatim>\<open>Error:\<close>; it does not throw
  and it sends no HTTP request (the world is unchanged).
\<close>

theorem missing_parameter_is_error_reply:
  "(graph_missing gp \<longrightarrow>
      error_reply (memory_graph_execute srv_ents srv_prof srv_rel js client gp w) w)
   \<and> (wisdom_missing wp \<longrightarrow>
      error_reply (memory_wisdom_execute srv_log srv_upd srv_wis js client wp w) w)"
proof (intro conjI impI)
  assume "graph_missing gp"
  then show "error_reply (memory_graph_execute srv_ents srv_prof srv_rel js client gp w) w"
    by (cases "gp_action gp")
       (auto simp: graph_missing_def missing_def memory_graph_execute_def error_reply_def
          text_response_def)
next
  assume "wisdom_missing wp"
  then show "error_reply (memory_wisdom_execute srv_log srv_upd srv_wis js client wp w) w"
    by (cases "wp_action wp")
       (auto simp: wisdom_missing_def missing_def memory_wisdom_execute_def error_reply_def
          text_response_def)
qed

theorem missing_parameter_is_error_reply_witness:
  "graph_missing (no_graph_params\<lparr>gp_action := Add_relationship,
       gp_subject_id := Some ''ent_1'', gp_predicate := Some ''works_on''\<rparr>)
   \<and> memory_graph_execute unreachable unreachable unreachable js_naturals
       (new_MaasvClient DEFAULT_CONFIG)
       (no_graph_params\<lparr>gp_action := Add_relationship,
          gp_subject_id := Some ''ent_1'', gp_predicate := Some ''works_on''\<rparr>) start
     = (Inr (text_response ''Error: either 'object_id' or 'object_value' required''), start)
   \<and> wisdom_missing (no_wisdom_params\<lparr>wp_action := Feedback, wp_wisdom_id := Some ''wis_1''\<rparr>)
   \<and> memory_wisdom_execute unreachable unreachable unreachable js_naturals
       (new_MaasvClient DEFAULT_CONFIG)
       (no_wisdom_params\<lparr>wp_action := Feedback, wp_wisdom_id := Some ''wis_1''\<rparr>) start
     = (Inr (text_response ''Error: 'wisdom_id' and 'score' required''), start)"
  using missing_parameter_is_error_reply
    [where gp = "no_graph_params\<lparr>gp_action := Add_relationship,
          gp_subject_id := Some ''ent_1'', gp_predicate := Some ''works_on''\<rparr>"
       and wp = "no_wisdom_params\<lparr>wp_action := Feedback, wp_wisdom_id := Some ''wis_1''\<rparr>"
       and w = start and js = js_naturals and client = "new_MaasvClient DEFAULT_CONFIG"
       and srv_ents = unreachable and srv_prof = unreachable and srv_rel = unreachable
       and srv_log = unreachable and srv_upd = unreachable and srv_wis = unreachable]
  by (simp add: graph_missing_def wisdom_missing_def missing_def no_graph_params_def
      no_wisdom_params_def memory_graph_execute_def memory_wisdom_execute_def)

text \<open>
  C7. A \<^verbatim>\<open>feedback\<close> invocation of \<^verbatim>\<open>memory_wisdom\<close> that supplies a (non-empty)
  \<^verbatim>\<open>wisdom_id\<close> and a \<^verbatim>\<open>score\<close> sends the feedback request, and only it, whatever
  the world and the remote state are: the plugin neither asks for nor checks a recorded
  outcome first.
\<close>

theorem feedback_is_unconditional:
  assumes "wp_action p = Feedback" and "truthy (wp_wisdom_id p)" and "wp_score p = Some s"
  shows "sent (snd (memory_wisdom_execute srv_log srv_upd srv_wis js client p w)) =
     sent w @ [\<lparr>req_method = ''POST'',
                 req_url = baseUrl client @ ''/v1/wisdom/'' @ the (wp_wisdom_id p) @ ''/feedback'',
                 req_headers = headers client,
                 req_body = Some (obj [(''score'', Some (JNum s)),
                                       (''notes'', map_option JStr (wp_notes p))])\<rparr>]"
proof -
  let ?call = "addFeedback srv_upd js client (the (wp_wisdom_id p)) s (wp_notes p) w"
  have "snd (memory_wisdom_execute srv_log srv_upd srv_wis js client p w) = snd ?call"
    using assms
    by (cases ?call) (auto simp: memory_wisdom_execute_def split: sum.splits)
  then show ?thesis
    by (simp add: addFeedback_def request_sent)
qed

theorem feedback_is_unconditional_witness:
  "wp_action (no_wisdom_params\<lparr>wp_action := Feedback, wp_wisdom_id := Some ''wis_1'',
       wp_score := Some 4\<rparr>) = Feedback
   \<and> truthy (wp_wisdom_id (no_wisdom_params\<lparr>wp_action := Feedback,
       wp_wisdom_id := Some ''wis_1'', wp_score := Some 4\<rparr>))
   \<and> wp_score (no_wisdom_params\<lparr>wp_action := Feedback, wp_wisdom_id := Some ''wis_1'',
       wp_score := Some 4\<rparr>) = Some 4
   \<and> sent (snd (memory_wisdom_execute unreachable unreachable unreachable js_naturals
        (new_MaasvClient DEFAULT_CONFIG)
        (no_wisdom_params\<lparr>wp_action := Feedback, wp_wisdom_id := Some ''wis_1'',
           wp_score := Some 4\<rparr>) start)) =
       [\<lparr>req_method = ''POST'', req_url = ''http://127.0.0.1:18790/v1/wisdom/wis_1/feedback'',
         req_headers = [(''Content-Type'', ''application/json'')],
         req_body = Some (JObj [(''score'', JNum 4)])\<rparr>]"
  using feedback_is_unconditional
    [where p = "no_wisdom_params\<lparr>wp_action := Feedback, wp_wisdom_id := Some ''wis_1'',
           wp_score := Some 4\<rparr>" and s = 4 and w = start and js = js_naturals
       and client = "new_MaasvClient DEFAULT_CONFIG"
       and srv_log = unreachable and srv_upd = unreachable and srv_wis = unreachable]
  by (simp add: no_wisdom_params_def new_MaasvClient_def DEFAULT_CONFIG_def
      strip_trailing_slashes_def start_def obj_def map_filter_simps)

text \<open>
  In general: \<^verbatim>\<open>memory_forget\<close> turns every outcome of its call into a text, while a
  failed call of \<^verbatim>\<open>memory_store\<close> or \<^verbatim>\<open>memory_search\<close> is the result of the tool.
\<close>

lemma memory_forget_never_rejects:
  "\<exists>t. fst (memory_forget_execute srv js client params_id w) = Inr (text_response t)"
  by (cases "deleteMemory srv js client params_id w")
     (auto simp: memory_forget_execute_def split: sum.splits)

lemma memory_store_rejects:
  assumes "fst (storeMemory srv js client (store_request_of params) w) = Inl e"
  shows "fst (memory_store_execute srv js client params w) = Inl e"
  using assms
  by (cases "storeMemory srv js client (store_request_of params) w")
     (auto simp: memory_store_execute_def store_request_of_def split: sum.splits)

lemma memory_search_rejects:
  assumes "fst (searchMemories srv js client
                  (params\<lparr>q_limit := Some (case q_limit params of None \<Rightarrow> 5 | Some l \<Rightarrow> l)\<rparr>) w)
             = Inl e"
  shows "fst (memory_search_execute srv js client params w) = Inl e"
proof -
  have "params\<lparr>q_limit := Some (case q_limit params of None \<Rightarrow> 5 | Some l \<Rightarrow> l)\<rparr>
          = \<lparr>q_query = q_query params,
             q_limit = Some (case q_limit params of None \<Rightarrow> 5 | Some l \<Rightarrow> l),
             q_category = q_category params, q_subject = q_subject params\<rparr>"
    by simp
  with assms show ?thesis
    by (auto simp: memory_search_execute_def split: prod.splits sum.splits)
qed

text \<open>
  C2. With the service out of reach, \<^verbatim>\<open>memory_forget\<close> answers with a text that
  reports the failure, but \<^verbatim>\<open>memory_store\<close>, \<^verbatim>\<open>memory_search\<close>, \<^verbatim>\<open>memory_graph\<close>
  and \<^verbatim>\<open>memory_wisdom\<close> reject with the error of the client: their \<^verbatim>\<open>execute\<close> has no
  \<^verbatim>\<open>try\<close> around the call.
\<close>

theorem tools_without_catch:
  "fst (memory_store_execute unreachable js_naturals (new_MaasvClient DEFAULT_CONFIG)
          coffee_params start) = Inl (Error ''fetch failed'')
   \<and> fst (memory_search_execute unreachable js_naturals (new_MaasvClient DEFAULT_CONFIG)
          coffee_query start) = Inl (Error ''fetch failed'')
   \<and> fst (memory_graph_execute unreachable unreachable unreachable js_naturals
          (new_MaasvClient DEFAULT_CONFIG)
          (no_graph_params\<lparr>gp_action := Profile, gp_entity_id := Some ''ent_1''\<rparr>) start)
       = Inl (Error ''fetch failed'')
   \<and> fst (memory_wisdom_execute unreachable unreachable unreachable js_naturals
          (new_MaasvClient DEFAULT_CONFIG)
          (no_wisdom_params\<lparr>wp_action := WSearch, wp_query := Some ''deploy''\<rparr>) start)
       = Inl (Error ''fetch failed'')
   \<and> fst (memory_forget_execute unreachable js_naturals (new_MaasvClient DEFAULT_CONFIG)
          ''mem_1'' start)
       = Inr (text_response ''Failed to delete memory mem_1: fetch failed'')"
  by (simp add: memory_store_execute_def memory_search_execute_def memory_graph_execute_def
      memory_wisdom_execute_def memory_forget_execute_def storeMemory_def searchMemories_def
      getEntityProfile_def searchWisdom_def deleteMemory_def request_unreachable
      no_graph_params_def no_wisdom_params_def)

theorem tools_without_catch_witness:
  "isl (fst (memory_store_execute unreachable js_naturals (new_MaasvClient DEFAULT_CONFIG)
          coffee_params start))
   \<and> isl (fst (memory_search_execute unreachable js_naturals (new_MaasvClient DEFAULT_CONFIG)
          coffee_query start))
   \<and> \<not> isl (fst (memory_forget_execute unreachable js_naturals (new_MaasvClient DEFAULT_CONFIG)
          ''mem_1'' start))"
  using tools_without_catch by simp

subsection \<open>The hooks\<close>

lemma slice_from_start_length:
  assumes "0 \<le> m"
  shows "real (length (slice s 0 m)) \<le> m"
proof -
  have floor_nonneg: "0 \<le> \<lfloor>m\<rfloor>"
    using assms by simp
  have "length (slice s 0 m) \<le> nat \<lfloor>m\<rfloor>"
    using assms by (auto simp: slice_def slice_index_def to_integer_def Let_def min_def)
  then have "real (length (slice s 0 m)) \<le> real (nat \<lfloor>m\<rfloor>)"
    by simp
  also have "real (nat \<lfloor>m\<rfloor>) = real_of_int \<lfloor>m\<rfloor>"
    using floor_nonneg by simp
  also have "real_of_int \<lfloor>m\<rfloor> \<le> m"
    by simp
  finally show ?thesis .
qed

lemma truncated_length:
  assumes "0 \<le> m"
  shows "real (length (truncated m ctx)) \<le> m + real (length ''\<newline>[truncated]'')"
proof (cases "real (length ctx) > m")
  case True
  then show ?thesis
    using slice_from_start_length [OF assms, of ctx] by (simp add: truncated_def)
next
  case False
  then show ?thesis by (simp add: truncated_def)
qed

text \<open>
  C1, amended. For a configuration whose \<^verbatim>\<open>maxRecallTokens\<close> is \<open>N \<ge> 0\<close>, whatever
  context the service returns, the text that the auto-recall hook puts between the
  \<^verbatim>\<open><long_term_memory>\<close> tags has at most \<open>4 * N\<close> characters plus the length of the
  marker \<^verbatim>\<open>"\n[truncated]"\<close>.
\<close>

theorem recall_within_budget:
  assumes "0 \<le> maxRecallTokens config"
    and "fst (before_agent_start srv js stringify config ev w) = Inr (Some r)"
  shows "\<exists>body. prependContext r = ''<long_term_memory>\<newline>'' @ body @ ''\<newline></long_term_memory>''
           \<and> real (length body)
               \<le> 4 * maxRecallTokens config + real (length ''\<newline>[truncated]'')"
proof -
  from assms(2) obtain ctx where
    r: "prependContext r = ''<long_term_memory>\<newline>''
          @ truncated (maxRecallTokens config * 4) ctx @ ''\<newline></long_term_memory>''"
    by (auto simp: before_agent_start_def Let_def split: if_splits prod.splits sum.splits)
  have "real (length (truncated (maxRecallTokens config * 4) ctx))
          \<le> maxRecallTokens config * 4 + real (length ''\<newline>[truncated]'')"
    using assms(1) by (intro truncated_length) simp
  with r show ?thesis by (intro exI [of _ "truncated (maxRecallTokens config * 4) ctx"]) simp
qed

lemma before_agent_start_alphabet:
  "fst (before_agent_start alphabet_service js_naturals no_stringify
          (DEFAULT_CONFIG\<lparr>maxRecallTokens := n\<rparr>) asking start)
     = Inr (Some \<lparr>prependContext = ''<long_term_memory>\<newline>''
         @ truncated (n * 4) ''abcdefghijklmnopqrstuvwxyz'' @ ''\<newline></long_term_memory>''\<rparr>)"
  by (simp add: before_agent_start_def extractUserMessage_def asking_def DEFAULT_CONFIG_def
      getContext_def request_def fetch_def alphabet_service_def ok_def start_def Let_def)

theorem recall_within_budget_witness:
  "0 \<le> maxRecallTokens small_budget
   \<and> fst (before_agent_start alphabet_service js_naturals no_stringify small_budget asking start)
       = Inr (Some \<lparr>prependContext =
           ''<long_term_memory>\<newline>abcdefgh\<newline>[truncated]\<newline></long_term_memory>''\<rparr>)
   \<and> real (length ''abcdefgh\<newline>[truncated]'')
       \<le> 4 * maxRecallTokens small_budget + real (length ''\<newline>[truncated]'')"
proof -
  have out: "fst (before_agent_start alphabet_service js_naturals no_stringify small_budget
                asking start)
       = Inr (Some \<lparr>prependContext =
           ''<long_term_memory>\<newline>abcdefgh\<newline>[truncated]\<newline></long_term_memory>''\<rparr>)"
    unfolding small_budget_def before_agent_start_alphabet
    by (simp add: truncated_def slice_def slice_index_def to_integer_def)
  have pos: "0 \<le> maxRecallTokens small_budget"
    by (simp add: small_budget_def)
  from recall_within_budget [OF pos out] pos out show ?thesis
    by (simp add: small_budget_def)
qed

text \<open>
  C1 as the specification has it, for every configuration, fails when the budget is
  negative: \<^verbatim>\<open>slice(0, -4)\<close> only drops the last four characters of the context, so
  with \<open>N = -1\<close> and a context of 26 characters the text emitted has 22 characters and
  the marker, more than \<open>4 * N\<close> and the marker.
\<close>

theorem recall_budget_counterexample:
  "fst (before_agent_start alphabet_service js_naturals no_stringify negative_budget asking start)
     = Inr (Some \<lparr>prependContext =
         ''<long_term_memory>\<newline>abcdefghijklmnopqrstuv\<newline>[truncated]\<newline></long_term_memory>''\<rparr>)
   \<and> \<not> real (length ''abcdefghijklmnopqrstuv\<newline>[truncated]'')
         \<le> 4 * maxRecallTokens negative_budget + real (length ''\<newline>[truncated]'')"
  unfolding negative_budget_def before_agent_start_alphabet
  by (simp add: truncated_def slice_def slice_index_def to_integer_def DEFAULT_CONFIG_def)

lemma request_failed:
  assumes "failed (fst (srv \<lparr>req_method = m, req_url = baseUrl cl @ p,
                            req_headers = headers cl, req_body = b\<rparr> (remote w)))"
  shows "\<exists>e. fst (request srv js cl m p b w) = Inl e"
  using assms
  by (auto simp: request_def fetch_def failed_def Let_def isl_def
      split: prod.splits fetch_outcome.splits)

lemma failing_call:
  assumes "\<forall>req r. failed (fst (srv req r))"
  shows "\<exists>e w'. request srv js cl m p b w = (Inl e, w') \<and> warnings w' = warnings w"
proof -
  from assms request_failed [of srv m cl p b w js]
  obtain e where "fst (request srv js cl m p b w) = Inl e" by blast
  moreover have "warnings (snd (request srv js cl m p b w)) = warnings w"
    by (rule request_warnings)
  ultimately show ?thesis
    by (cases "request srv js cl m p b w") auto
qed

lemma request_fst:
  "fst (request srv js cl m p b w) =
     (case fst (srv \<lparr>req_method = m, req_url = baseUrl cl @ p,
                     req_headers = headers cl, req_body = b\<rparr> (remote w)) of
        Rejected e \<Rightarrow> Inl e
      | Response st txt parsed \<Rightarrow>
          if ok st then parsed
          else Inl (Error (''maasv-server '' @ m @ '' '' @ p @ '' failed: ''
                 @ number_to_string js (real st) @ '' ''
                 @ (case txt of None \<Rightarrow> [] | Some t \<Rightarrow> t))))"
  by (simp add: request_def fetch_def Let_def split: prod.splits fetch_outcome.splits)

text \<open>
  C6. When the client call of a hook throws, the hook catches the error: it logs one
  warning, which is the text of the hook followed by the message of that very error, on
  the world the call left, and returns without a result. When the call succeeds nothing
  is logged. Neither hook ever throws.
\<close>

theorem hooks_swallow_client_errors:
  "(autoRecall config \<and> extractUserMessage stringify ev = Some u \<and> u \<noteq> []
      \<and> getContext srv_ctx js (new_MaasvClient config)
           \<lparr>c_query = Some u,
            c_core_limit = Some (maxRecallResults config),
            c_relevant_limit = Some (real_of_int \<lceil>maxRecallResults config / 2\<rceil>),
            c_use_semantic = Some True\<rparr> w = (Inl e, w')
     \<longrightarrow> before_agent_start srv_ctx js stringify config ev w
           = (Inr None, logger_warn (''Auto-recall failed: '' @ message e) w'))
   \<and> (autoCapture config \<and> extractConversation stringify ev = Some t \<and> 50 \<le> length t
      \<and> client_extract srv_ext js (new_MaasvClient config) t None v = (Inl e, v')
     \<longrightarrow> agent_end srv_ext js stringify config ev v
           = (Inr (), logger_warn (''Auto-capture failed: '' @ message e) v'))
   \<and> (autoRecall config \<and> extractUserMessage stringify ev = Some u \<and> u \<noteq> []
      \<and> getContext srv_ctx js (new_MaasvClient config)
           \<lparr>c_query = Some u,
            c_core_limit = Some (maxRecallResults config),
            c_relevant_limit = Some (real_of_int \<lceil>maxRecallResults config / 2\<rceil>),
            c_use_semantic = Some True\<rparr> w = (Inr reply, w')
     \<longrightarrow> snd (before_agent_start srv_ctx js stringify config ev w) = w')
   \<and> (autoCapture config \<and> extractConversation stringify ev = Some t \<and> 50 \<le> length t
      \<and> client_extract srv_ext js (new_MaasvClient config) t None v = (Inr result, v')
     \<longrightarrow> agent_end srv_ext js stringify config ev v = (Inr (), v'))
   \<and> \<not> isl (fst (before_agent_start srv_ctx js stringify config ev w))
   \<and> \<not> isl (fst (agent_end srv_ext js stringify config ev v))"
proof (intro conjI impI)
  assume "autoRecall config \<and> extractUserMessage stringify ev = Some u \<and> u \<noteq> []
      \<and> getContext srv_ctx js (new_MaasvClient config)
           \<lparr>c_query = Some u,
            c_core_limit = Some (maxRecallResults config),
            c_relevant_limit = Some (real_of_int \<lceil>maxRecallResults config / 2\<rceil>),
            c_use_semantic = Some True\<rparr> w = (Inl e, w')"
  then show "before_agent_start srv_ctx js stringify config ev w
           = (Inr None, logger_warn (''Auto-recall failed: '' @ message e) w')"
    by (simp add: before_agent_start_def Let_def)
next
  assume "autoCapture config \<and> extractConversation stringify ev = Some t \<and> 50 \<le> length t
      \<and> client_extract srv_ext js (new_MaasvClient config) t None v = (Inl e, v')"
  then show "agent_end srv_ext js stringify config ev v
           = (Inr (), logger_warn (''Auto-capture failed: '' @ message e) v')"
    by (auto simp: agent_end_def Let_def)
next
  assume "autoRecall config \<and> extractUserMessage stringify ev = Some u \<and> u \<noteq> []
      \<and> getContext srv_ctx js (new_MaasvClient config)
           \<lparr>c_query = Some u,
            c_core_limit = Some (maxRecallResults config),
            c_relevant_limit = Some (real_of_int \<lceil>maxRecallResults config / 2\<rceil>),
            c_use_semantic = Some True\<rparr> w = (Inr reply, w')"
  then show "snd (before_agent_start srv_ctx js stringify config ev w) = w'"
    by (simp add: before_agent_start_def Let_def)
next
  assume "autoCapture config \<and> extractConversation stringify ev = Some t \<and> 50 \<le> length t
      \<and> client_extract srv_ext js (new_MaasvClient config) t None v = (Inr result, v')"
  then show "agent_end srv_ext js stringify config ev v = (Inr (), v')"
    by (auto simp: agent_end_def Let_def)
next
  show "\<not> isl (fst (before_agent_start srv_ctx js stringify config ev w))"
    by (simp add: before_agent_start_def Let_def split: prod.splits sum.splits)
next
  show "\<not> isl (fst (agent_end srv_ext js stringify config ev v))"
    by (simp add: agent_end_def Let_def split: prod.splits sum.splits)
qed

theorem hooks_swallow_client_errors_witness:
  "autoRecall DEFAULT_CONFIG
   \<and> extractUserMessage no_stringify asking = Some ''what do I like?''
   \<and> before_agent_start boom js_naturals no_stringify DEFAULT_CONFIG asking start
       = (Inr None, \<lparr>sent = [\<lparr>req_method = ''POST'',
            req_url = ''http://127.0.0.1:18790/v1/memory/context'',
            req_headers = [(''Content-Type'', ''application/json'')],
            req_body = Some (JObj [(''query'', JStr ''what do I like?''),
              (''core_limit'', JNum 5), (''relevant_limit'', JNum 3),
              (''use_semantic'', JBool True)])\<rparr>],
          warnings = [''Auto-recall failed: maasv-server POST /v1/memory/context failed: 500 boom''],
          remote = ()\<rparr>)
   \<and> autoCapture DEFAULT_CONFIG
   \<and> extractConversation no_stringify long_talk
       = Some ''user: I moved to Lisbon last month\<newline>\<newline>assistant: Noted, you live in Lisbon now''
   \<and> agent_end (boom :: _ \<Rightarrow> _ \<Rightarrow> unit fetch_outcome \<times> _) js_naturals no_stringify
        DEFAULT_CONFIG long_talk start
       = (Inr (), \<lparr>sent = [\<lparr>req_method = ''POST'',
            req_url = ''http://127.0.0.1:18790/v1/extract'',
            req_headers = [(''Content-Type'', ''application/json'')],
            req_body = Some (JObj [(''text'', JStr
              ''user: I moved to Lisbon last month\<newline>\<newline>assistant: Noted, you live in Lisbon now''),
              (''topic'', JStr [])])\<rparr>],
          warnings = [''Auto-capture failed: maasv-server POST /v1/extract failed: 500 boom''],
          remote = ()\<rparr>)"
proof -
  let ?cl = "new_MaasvClient DEFAULT_CONFIG"
  let ?talk = "''user: I moved to Lisbon last month\<newline>\<newline>assistant: Noted, you live in Lisbon now''"
  let ?recall = "\<lparr>req_method = ''POST'',
            req_url = ''http://127.0.0.1:18790/v1/memory/context'',
            req_headers = [(''Content-Type'', ''application/json'')],
            req_body = Some (JObj [(''query'', JStr ''what do I like?''),
              (''core_limit'', JNum 5), (''relevant_limit'', JNum 3),
              (''use_semantic'', JBool True)])\<rparr>"
  let ?capture = "\<lparr>req_method = ''POST'',
            req_url = ''http://127.0.0.1:18790/v1/extract'',
            req_headers = [(''Content-Type'', ''application/json'')],
            req_body = Some (JObj [(''text'', JStr ?talk), (''topic'', JStr [])])\<rparr>"
  have code: "number_to_string js_naturals 500 = ''500''"
    by (simp add: js_naturals_def decimal.simps digit_def)
  have on: "autoRecall DEFAULT_CONFIG" "autoCapture DEFAULT_CONFIG"
    by (simp_all add: DEFAULT_CONFIG_def)
  have asked: "extractUserMessage no_stringify asking = Some ''what do I like?''"
    by (simp add: extractUserMessage_def asking_def)
  have said: "extractConversation no_stringify long_talk = Some ?talk"
    by (simp add: extractConversation_def long_talk_def conversation_part_def
        content_string_def Let_def)
  have recall: "getContext boom js_naturals ?cl
      \<lparr>c_query = Some ''what do I like?'',
       c_core_limit = Some (maxRecallResults DEFAULT_CONFIG),
       c_relevant_limit = Some (real_of_int \<lceil>maxRecallResults DEFAULT_CONFIG / 2\<rceil>),
       c_use_semantic = Some True\<rparr> start
      = (Inl (Error ''maasv-server POST /v1/memory/context failed: 500 boom''),
         \<lparr>sent = [?recall], warnings = [], remote = ()\<rparr>)"
    by (simp add: getContext_def request_def fetch_def boom_def ok_def code
        new_MaasvClient_def DEFAULT_CONFIG_def strip_trailing_slashes_def start_def
        json_of_ContextRequest_def obj_def Let_def)
  have capture: "client_extract (boom :: _ \<Rightarrow> _ \<Rightarrow> unit fetch_outcome \<times> _) js_naturals ?cl
      ?talk None start
      = (Inl (Error ''maasv-server POST /v1/extract failed: 500 boom''),
         \<lparr>sent = [?capture], warnings = [], remote = ()\<rparr>)"
    by (simp add: client_extract_def request_def fetch_def boom_def ok_def code
        new_MaasvClient_def DEFAULT_CONFIG_def strip_trailing_slashes_def start_def
        obj_def Let_def)
  have "before_agent_start boom js_naturals no_stringify DEFAULT_CONFIG asking start
      = (Inr None, logger_warn (''Auto-recall failed: ''
           @ message (Error ''maasv-server POST /v1/memory/context failed: 500 boom''))
           \<lparr>sent = [?recall], warnings = [], remote = ()\<rparr>)"
    using on(1) asked recall
    by (intro hooks_swallow_client_errors [where u = "''what do I like?''",
          THEN conjunct1, THEN mp]) simp
  then have first: "before_agent_start boom js_naturals no_stringify DEFAULT_CONFIG asking start
      = (Inr None, \<lparr>sent = [?recall],
          warnings = [''Auto-recall failed: maasv-server POST /v1/memory/context failed: 500 boom''],
          remote = ()\<rparr>)"
    by (simp add: logger_warn_def)
  have "agent_end (boom :: _ \<Rightarrow> _ \<Rightarrow> unit fetch_outcome \<times> _) js_naturals no_stringify
        DEFAULT_CONFIG long_talk start
      = (Inr (), logger_warn (''Auto-capture failed: ''
           @ message (Error ''maasv-server POST /v1/extract failed: 500 boom''))
           \<lparr>sent = [?capture], warnings = [], remote = ()\<rparr>)"
    using on(2) said capture
    by (intro hooks_swallow_client_errors [where t = ?talk,
          THEN conjunct2, THEN conjunct1, THEN mp]) simp
  then have second: "agent_end (boom :: _ \<Rightarrow> _ \<Rightarrow> unit fetch_outcome \<times> _) js_naturals
        no_stringify DEFAULT_CONFIG long_talk start
      = (Inr (), \<lparr>sent = [?capture],
          warnings = [''Auto-capture failed: maasv-server POST /v1/extract failed: 500 boom''],
          remote = ()\<rparr>)"
    by (simp add: logger_warn_def)
  from on asked said first second show ?thesis
    by (intro conjI)
qed

lemma extractConversation_None:
  "extractConversation stringify ev = None \<longleftrightarrow> \<not> has_conversation ev"
  by (cases "messages ev")
     (auto simp: extractConversation_def has_conversation_def Let_def list_ex_iff
        filter_empty_conv)

text \<open>
  C10. The auto-capture hook sends nothing, and changes nothing, when \<^verbatim>\<open>autoCapture\<close>
  is off, when the event has no message of the user or the assistant, or when the
  conversation text has fewer than 50 characters. Otherwise, with a text of at least 50
  characters, it sends that text in one request to \<^verbatim>\<open>/v1/extract\<close>.
\<close>

theorem auto_capture_gate:
  "(\<not> autoCapture config \<or> \<not> has_conversation ev
      \<or> (\<exists>t. extractConversation stringify ev = Some t \<and> length t < 50)
     \<longrightarrow> agent_end srv js stringify config ev w = (Inr (), w))
   \<and> (autoCapture config \<and> extractConversation stringify ev = Some t \<and> 50 \<le> length t
     \<longrightarrow> sent (snd (agent_end srv js stringify config ev w)) =
           sent w @ [\<lparr>req_method = ''POST'',
                       req_url = strip_trailing_slashes (serverUrl config) @ ''/v1/extract'',
                       req_headers = headers (new_MaasvClient config),
                       req_body = Some (JObj [(''text'', JStr t), (''topic'', JStr [])])\<rparr>])"
proof (intro conjI impI)
  assume "\<not> autoCapture config \<or> \<not> has_conversation ev
      \<or> (\<exists>t. extractConversation stringify ev = Some t \<and> length t < 50)"
  then show "agent_end srv js stringify config ev w = (Inr (), w)"
    using extractConversation_None [of stringify ev]
    by (auto simp: agent_end_def Let_def)
next
  assume h: "autoCapture config \<and> extractConversation stringify ev = Some t \<and> 50 \<le> length t"
  let ?call = "client_extract srv js (new_MaasvClient config) t None w"
  from h have "snd (agent_end srv js stringify config ev w)
      = (case ?call of (Inl err, w') \<Rightarrow> logger_warn (''Auto-capture failed: '' @ message err) w'
                     | (Inr _, w') \<Rightarrow> w')"
    by (auto simp: agent_end_def Let_def split: prod.splits sum.splits)
  then have "sent (snd (agent_end srv js stringify config ev w)) = sent (snd ?call)"
    by (cases ?call) (auto simp: logger_warn_def split: sum.splits)
  then show "sent (snd (agent_end srv js stringify config ev w)) =
           sent w @ [\<lparr>req_method = ''POST'',
                       req_url = strip_trailing_slashes (serverUrl config) @ ''/v1/extract'',
                       req_headers = headers (new_MaasvClient config),
                       req_body = Some (JObj [(''text'', JStr t), (''topic'', JStr [])])\<rparr>]"
    by (simp add: client_extract_def request_sent obj_def map_filter_simps new_MaasvClient_def)
qed

theorem auto_capture_gate_witness:
  "has_conversation short_talk
   \<and> extractConversation no_stringify short_talk = Some ''user: hi\<newline>\<newline>assistant: hello''
   \<and> length ''user: hi\<newline>\<newline>assistant: hello'' < 50
   \<and> agent_end (unreachable :: _ \<Rightarrow> _ \<Rightarrow> unit fetch_outcome \<times> _) js_naturals no_stringify
        DEFAULT_CONFIG short_talk start = (Inr (), start)
   \<and> autoCapture DEFAULT_CONFIG
   \<and> extractConversation no_stringify long_talk
       = Some ''user: I moved to Lisbon last month\<newline>\<newline>assistant: Noted, you live in Lisbon now''
   \<and> 50 \<le> length
       ''user: I moved to Lisbon last month\<newline>\<newline>assistant: Noted, you live in Lisbon now''
   \<and> sent (snd (agent_end (unreachable :: _ \<Rightarrow> _ \<Rightarrow> unit fetch_outcome \<times> _) js_naturals
        no_stringify DEFAULT_CONFIG long_talk start)) =
       [\<lparr>req_method = ''POST'', req_url = ''http://127.0.0.1:18790/v1/extract'',
         req_headers = [(''Content-Type'', ''application/json'')],
         req_body = Some (JObj [(''text'', JStr
           ''user: I moved to Lisbon last month\<newline>\<newline>assistant: Noted, you live in Lisbon now''),
           (''topic'', JStr [])])\<rparr>]"
proof -
  have s: "extractConversation no_stringify short_talk = Some ''user: hi\<newline>\<newline>assistant: hello''"
    by (simp add: extractConversation_def short_talk_def conversation_part_def
        content_string_def Let_def)
  have l: "extractConversation no_stringify long_talk
       = Some ''user: I moved to Lisbon last month\<newline>\<newline>assistant: Noted, you live in Lisbon now''"
    by (simp add: extractConversation_def long_talk_def conversation_part_def
        content_string_def Let_def)
  have hc: "has_conversation short_talk"
    by (simp add: has_conversation_def short_talk_def)
  have ac: "autoCapture DEFAULT_CONFIG"
    by (simp add: DEFAULT_CONFIG_def)
  note gate = auto_capture_gate [where srv = "unreachable :: _ \<Rightarrow> _ \<Rightarrow> unit fetch_outcome \<times> _"
      and js = js_naturals and stringify = no_stringify and config = DEFAULT_CONFIG and w = start]
  from gate [where ev = short_talk, THEN conjunct1] s
  have short: "agent_end (unreachable :: _ \<Rightarrow> _ \<Rightarrow> unit fetch_outcome \<times> _) js_naturals
        no_stringify DEFAULT_CONFIG short_talk start = (Inr (), start)"
    by simp
  from gate [where ev = long_talk, THEN conjunct2,
      of "''user: I moved to Lisbon last month\<newline>\<newline>assistant: Noted, you live in Lisbon now''"]
    l ac
  have long: "sent (snd (agent_end (unreachable :: _ \<Rightarrow> _ \<Rightarrow> unit fetch_outcome \<times> _) js_naturals
        no_stringify DEFAULT_CONFIG long_talk start)) =
       [\<lparr>req_method = ''POST'', req_url = ''http://127.0.0.1:18790/v1/extract'',
         req_headers = [(''Content-Type'', ''application/json'')],
         req_body = Some (JObj [(''text'', JStr
           ''user: I moved to Lisbon last month\<newline>\<newline>assistant: Noted, you live in Lisbon now''),
           (''topic'', JStr [])])\<rparr>]"
    by (simp add: DEFAULT_CONFIG_def new_MaasvClient_def strip_trailing_slashes_def start_def)
  from s l hc ac short long show ?thesis by simp
qed

subsection \<open>The tools against the remote service\<close>

lemma find_append:
  "List.find P (xs @ ys) = (case List.find P xs of None \<Rightarrow> List.find P ys | Some x \<Rightarrow> Some x)"
  by (induction xs) auto

lemma find_filter:
  "List.find P xs = (case filter P xs of [] \<Rightarrow> None | x # _ \<Rightarrow> Some x)"
  by (induction xs) auto

lemma decode_StoreRequest_roundtrip:
  "decode_StoreRequest (json_of_StoreRequest r) = Some r"
  by (cases "sr_subject r"; cases "sr_source r"; cases "sr_confidence r"; cases "sr_metadata r")
     (simp_all add: decode_StoreRequest_def json_of_StoreRequest_def obj_def
        string_field_def number_field_def)

lemma decode_RelationshipRequest_roundtrip:
  "decode_RelationshipRequest (json_of_RelationshipRequest r) = Some r"
  by (cases "rr_object_id r"; cases "rr_object_value r"; cases "rr_confidence r";
      cases "rr_source r")
     (simp_all add: decode_RelationshipRequest_def json_of_RelationshipRequest_def obj_def
        string_field_def number_field_def)

text \<open>What \<^verbatim>\<open>memory_store\<close> does when the remote side is the modelled store.\<close>

lemma memory_store_against_service:
  "memory_store_execute (store_endpoint gap threshold new_id) js client params w =
     (Inr (text_response (''Stored memory: ''
        @ fst (store_memory gap threshold new_id (store_request_of params) (remote w)))),
      w\<lparr>sent := sent w @ [\<lparr>req_method = ''POST'', req_url = baseUrl client @ ''/v1/memory/store'',
                             req_headers = headers client,
                             req_body = Some (json_of_StoreRequest (store_request_of params))\<rparr>],
        remote := snd (store_memory gap threshold new_id (store_request_of params) (remote w))\<rparr>)"
  by (simp add: memory_store_execute_def storeMemory_def request_def fetch_def
      store_endpoint_def decode_StoreRequest_roundtrip store_request_of_def [symmetric]
      ok_def Let_def split: prod.splits)

lemma store_memory_duplicate:
  assumes "list_ex (near_duplicate gap threshold (sr_content req)) ms"
  shows "snd (store_memory gap threshold new_id req ms) = ms"
    and "fst (store_memory gap threshold new_id req ms)
           \<in> sm_id ` {m \<in> set ms. near_duplicate gap threshold (sr_content req) m}"
proof -
  from assms obtain m where
    m: "List.find (near_duplicate gap threshold (sr_content req)) ms = Some m"
    by (cases "List.find (near_duplicate gap threshold (sr_content req)) ms")
       (auto simp: find_None_iff list_ex_iff)
  then have "m \<in> set ms \<and> near_duplicate gap threshold (sr_content req) m"
    by (auto simp: find_Some_iff)
  with m show "snd (store_memory gap threshold new_id req ms) = ms"
    and "fst (store_memory gap threshold new_id req ms)
           \<in> sm_id ` {m \<in> set ms. near_duplicate gap threshold (sr_content req) m}"
    by (auto simp: store_memory_def near_duplicate_def [abs_def])
qed

lemma store_memory_fresh:
  assumes "\<not> list_ex (near_duplicate gap threshold (sr_content req)) ms"
  shows "\<exists>m. snd (store_memory gap threshold new_id req ms) = ms @ [m]
           \<and> sm_id m = fst (store_memory gap threshold new_id req ms)
           \<and> sm_content m = sr_content req \<and> sm_access_count m = 0"
proof -
  from assms have "List.find (near_duplicate gap threshold (sr_content req)) ms = None"
    by (auto simp: find_None_iff list_ex_iff)
  then show ?thesis
    by (simp add: store_memory_def near_duplicate_def [abs_def] Let_def)
qed

lemma store_memory_again:
  assumes "gap (sr_content req) (sr_content req) < threshold"
  shows "store_memory gap threshold new_id req (snd (store_memory gap threshold new_id req ms))
           = store_memory gap threshold new_id req ms"
proof (cases "List.find (\<lambda>m. gap (sm_content m) (sr_content req) < threshold) ms")
  case None
  with assms show ?thesis
    by (simp add: store_memory_def Let_def find_append)
next
  case (Some m)
  then show ?thesis
    by (simp add: store_memory_def)
qed

text \<open>
  C3. Against a service that stores as section 4.2 says, storing a content twice in
  succession through \<^verbatim>\<open>memory_store\<close>, the content being within the near-duplicate
  threshold of itself, reports the same memory ID both times, and the second store
  creates no record. The first store leaves the memories as they are when one of them is
  a near duplicate; otherwise it appends one memory, which has the content, the reported
  ID and \<open>access_count = 0\<close>.
\<close>

theorem store_twice_same_id:
  assumes "gap (sp_content params) (sp_content params) < threshold"
  shows "\<exists>mid w1 w2.
      memory_store_execute (store_endpoint gap threshold new_id) js client params w
        = (Inr (text_response (''Stored memory: '' @ mid)), w1)
    \<and> memory_store_execute (store_endpoint gap threshold new_id) js client params w1
        = (Inr (text_response (''Stored memory: '' @ mid)), w2)
    \<and> remote w2 = remote w1
    \<and> (if list_ex (near_duplicate gap threshold (sp_content params)) (remote w)
        then remote w1 = remote w
        else (\<exists>m. remote w1 = remote w @ [m] \<and> sm_id m = mid
                \<and> sm_content m = sp_content params \<and> sm_access_count m = 0))"
proof -
  let ?req = "store_request_of params"
  let ?srv = "store_endpoint gap threshold new_id"
  let ?first = "store_memory gap threshold new_id ?req (remote w)"
  let ?w1 = "snd (memory_store_execute ?srv js client params w)"
  let ?w2 = "snd (memory_store_execute ?srv js client params ?w1)"
  have content: "sr_content ?req = sp_content params"
    by (simp add: store_request_of_def)
  have e1: "memory_store_execute ?srv js client params w
        = (Inr (text_response (''Stored memory: '' @ fst ?first)), ?w1)"
    by (simp add: memory_store_against_service)
  have r1: "remote ?w1 = snd ?first"
    by (simp add: memory_store_against_service)
  have again: "store_memory gap threshold new_id ?req (snd ?first) = ?first"
    using assms by (simp add: content store_memory_again)
  have e2: "memory_store_execute ?srv js client params ?w1
        = (Inr (text_response (''Stored memory: '' @ fst ?first)), ?w2)"
    by (simp add: memory_store_against_service again)
  have r2: "remote ?w2 = remote ?w1"
    by (simp add: memory_store_against_service again)
  have dup: "remote ?w1 = remote w"
    if "list_ex (near_duplicate gap threshold (sp_content params)) (remote w)"
    using that store_memory_duplicate(1) [of gap threshold ?req "remote w" new_id]
    by (simp add: r1 content)
  have fresh: "\<exists>m. remote ?w1 = remote w @ [m] \<and> sm_id m = fst ?first
                \<and> sm_content m = sp_content params \<and> sm_access_count m = 0"
    if "\<not> list_ex (near_duplicate gap threshold (sp_content params)) (remote w)"
    using that store_memory_fresh [of gap threshold ?req "remote w" new_id]
    by (simp add: r1 content)
  show ?thesis
  proof (rule exI [of _ "fst ?first"], rule exI [of _ ?w1], rule exI [of _ ?w2], intro conjI)
    show "memory_store_execute ?srv js client params w
        = (Inr (text_response (''Stored memory: '' @ fst ?first)), ?w1)"
      by (rule e1)
    show "memory_store_execute ?srv js client params ?w1
        = (Inr (text_response (''Stored memory: '' @ fst ?first)), ?w2)"
      by (rule e2)
    show "remote ?w2 = remote ?w1"
      by (rule r2)
    show "if list_ex (near_duplicate gap threshold (sp_content params)) (remote w)
        then remote ?w1 = remote w
        else (\<exists>m. remote ?w1 = remote w @ [m] \<and> sm_id m = fst ?first
                \<and> sm_content m = sp_content params \<and> sm_access_count m = 0)"
      using dup fresh by (cases "list_ex (near_duplicate gap threshold (sp_content params)) (remote w)") simp_all
  qed
qed

theorem store_twice_same_id_witness:
  "exact_distance (sp_content coffee_params) (sp_content coffee_params) < 0.05
   \<and> fst (memory_store_execute (store_endpoint exact_distance 0.05 (numbered ''mem_''))
          js_naturals (new_MaasvClient DEFAULT_CONFIG) coffee_params empty_store)
       = Inr (text_response ''Stored memory: mem_0'')
   \<and> fst (memory_store_execute (store_endpoint exact_distance 0.05 (numbered ''mem_''))
          js_naturals (new_MaasvClient DEFAULT_CONFIG) coffee_params
          (snd (memory_store_execute (store_endpoint exact_distance 0.05 (numbered ''mem_''))
             js_naturals (new_MaasvClient DEFAULT_CONFIG) coffee_params empty_store)))
       = Inr (text_response ''Stored memory: mem_0'')
   \<and> remote (snd (memory_store_execute (store_endpoint exact_distance 0.05 (numbered ''mem_''))
          js_naturals (new_MaasvClient DEFAULT_CONFIG) coffee_params
          (snd (memory_store_execute (store_endpoint exact_distance 0.05 (numbered ''mem_''))
             js_naturals (new_MaasvClient DEFAULT_CONFIG) coffee_params empty_store))))
       = [\<lparr>sm_id = ''mem_0'', sm_content = ''likes coffee'', sm_category = ''preference'',
           sm_subject = None, sm_source = Some ''openclaw'', sm_confidence = 1,
           sm_access_count = 0\<rparr>]"
proof -
  let ?srv = "store_endpoint exact_distance 0.05 (numbered ''mem_'')"
  let ?cl = "new_MaasvClient DEFAULT_CONFIG"
  let ?w1 = "snd (memory_store_execute ?srv js_naturals ?cl coffee_params empty_store)"
  have near: "exact_distance (sp_content coffee_params) (sp_content coffee_params) < 0.05"
    by (simp add: exact_distance_def)
  have first: "fst (memory_store_execute ?srv js_naturals ?cl coffee_params empty_store)
       = Inr (text_response ''Stored memory: mem_0'')"
    by (simp add: memory_store_against_service empty_store_def store_memory_def
        store_request_of_def coffee_params_def numbered_def decimal.simps digit_def Let_def)
  have stored: "remote ?w1 = [\<lparr>sm_id = ''mem_0'', sm_content = ''likes coffee'',
         sm_category = ''preference'', sm_subject = None, sm_source = Some ''openclaw'',
         sm_confidence = 1, sm_access_count = 0\<rparr>]"
    by (simp add: memory_store_against_service empty_store_def store_memory_def
        store_request_of_def coffee_params_def numbered_def decimal.simps digit_def Let_def)
  have second: "fst (memory_store_execute ?srv js_naturals ?cl coffee_params ?w1)
       = Inr (text_response ''Stored memory: mem_0'')"
    unfolding memory_store_against_service [of _ _ _ _ _ _ ?w1] stored
    by (simp add: store_memory_def store_request_of_def coffee_params_def exact_distance_def)
  have kept: "remote (snd (memory_store_execute ?srv js_naturals ?cl coffee_params ?w1))
       = [\<lparr>sm_id = ''mem_0'', sm_content = ''likes coffee'',
         sm_category = ''preference'', sm_subject = None, sm_source = Some ''openclaw'',
         sm_confidence = 1, sm_access_count = 0\<rparr>]"
    unfolding memory_store_against_service [of _ _ _ _ _ _ ?w1] stored
    by (simp add: store_memory_def store_request_of_def coffee_params_def exact_distance_def)
  from store_twice_same_id [where gap = exact_distance and threshold = "0.05"
      and params = coffee_params and new_id = "numbered ''mem_''" and js = js_naturals
      and client = "new_MaasvClient DEFAULT_CONFIG" and w = empty_store, OF near]
    near first second kept
  show ?thesis by blast
qed

text \<open>What \<^verbatim>\<open>memory_graph\<close> does when the remote side is the modelled graph.\<close>

lemma relate_against_service:
  assumes "A \<noteq> []" and "p \<noteq> []" and "X \<noteq> []"
  shows "memory_graph_execute srv_ents srv_prof (relationship_endpoint new_id timestamp)
           js client (relate A p X) w =
     (Inr (text_response (''Created relationship: ''
        @ fst (add_relationship new_id timestamp (value_request A p X) (remote w)))),
      w\<lparr>sent := sent w @ [\<lparr>req_method = ''POST'',
                             req_url = baseUrl client @ ''/v1/graph/relationships'',
                             req_headers = headers client,
                             req_body = Some (json_of_RelationshipRequest (value_request A p X))\<rparr>],
        remote := snd (add_relationship new_id timestamp (value_request A p X) (remote w))\<rparr>)"
  using assms
  by (simp add: memory_graph_execute_def relate_def no_graph_params_def addRelationship_def
      request_def fetch_def relationship_endpoint_def decode_RelationshipRequest_roundtrip
      value_request_def [symmetric] ok_def Let_def split: prod.splits)

lemma last_segment_of_path:
  assumes "CHR ''/'' \<notin> set A"
  shows "last_segment (base @ ''/v1/graph/entities/'' @ A) = A"
proof -
  have "rev (base @ ''/v1/graph/entities/'' @ A)
          = rev A @ CHR ''/'' # rev (base @ ''/v1/graph/entities'')"
    by simp
  moreover have "takeWhile (\<lambda>c. c \<noteq> CHR ''/'') (rev A @ CHR ''/'' # rest) = rev A" for rest
    using assms by (auto simp: takeWhile_tail)
  ultimately show ?thesis
    by (simp only: last_segment_def rev_rev_ident)
qed

lemma profile_against_service:
  assumes "A \<noteq> []" and "CHR ''/'' \<notin> set A" and "profile A (remote w) = Some prof"
  shows "fst (memory_graph_execute srv_ents profile_endpoint srv_rel js client (profile_of A) w)
           = Inr (text_response (join ''\<newline>'' (profile_lines prof)))"
  using assms last_segment_of_path [OF assms(2), of "baseUrl client"]
  by (simp add: memory_graph_execute_def profile_of_def no_graph_params_def
      getEntityProfile_def request_def fetch_def profile_endpoint_def ok_def Let_def)

subsection \<open>The modelled graph\<close>

lemma distinct_map_filter_key:
  assumes "distinct (map f xs)"
  shows "length (filter (\<lambda>x. f x = k) xs) \<le> 1"
  using assms
proof (induction xs)
  case Nil
  then show ?case by simp
next
  case (Cons x xs)
  show ?case
  proof (cases "f x = k")
    case True
    with Cons.prems have "k \<notin> f ` set xs"
      by simp
    then have "filter (\<lambda>x. f x = k) xs = []"
      unfolding filter_empty_conv by blast
    with True show ?thesis by simp
  next
    case False
    with Cons show ?thesis by simp
  qed
qed

lemma one_current:
  assumes "one_valid_per_key g"
    and "List.find (\<lambda>r. currently_valid r \<and> about s p r) (g_relationships g) = Some old"
  shows "filter (\<lambda>r. currently_valid r \<and> about s p r) (g_relationships g) = [old]"
proof -
  let ?valid = "filter currently_valid (g_relationships g)"
  let ?key = "\<lambda>r. (rel_subject_id r, rel_predicate r)"
  have split: "filter (\<lambda>r. currently_valid r \<and> about s p r) (g_relationships g)
                 = filter (\<lambda>r. ?key r = (s, p)) ?valid"
    by (simp add: about_def conj_commute)
  have "length (filter (\<lambda>r. ?key r = (s, p)) ?valid) \<le> 1"
    using assms(1) unfolding one_valid_per_key_def by (rule distinct_map_filter_key)
  with split have short: "length (filter (\<lambda>r. currently_valid r \<and> about s p r)
                                     (g_relationships g)) \<le> 1"
    by simp
  from assms(2) obtain rest where
    "filter (\<lambda>r. currently_valid r \<and> about s p r) (g_relationships g) = old # rest"
    by (auto simp: find_filter split: list.splits)
  with short show ?thesis by simp
qed

lemma closed_are_not_valid:
  "filter currently_valid
     (map (\<lambda>r. if currently_valid r \<and> about s p r then r\<lparr>rel_valid_to := Some now\<rparr> else r) rs)
   = filter (\<lambda>r. currently_valid r \<and> \<not> about s p r) rs"
  by (induction rs) (auto simp: currently_valid_def)

lemma closed_are_not_current:
  "filter (\<lambda>r. currently_valid r \<and> about s p r)
     (map (\<lambda>r. if currently_valid r \<and> about s p r then r\<lparr>rel_valid_to := Some now\<rparr> else r) rs)
   = []"
  by (induction rs) (auto simp: currently_valid_def)

lemma add_relationship_keeps_one_valid:
  assumes "one_valid_per_key g"
  shows "one_valid_per_key (snd (add_relationship new_id timestamp req g))"
proof -
  let ?s = "rr_subject_id req" and ?p = "rr_predicate req"
  let ?key = "\<lambda>r. (rel_subject_id r, rel_predicate r)"
  let ?cur = "\<lambda>r. currently_valid r \<and> about ?s ?p r"
  show ?thesis
  proof (cases "List.find ?cur (g_relationships g)")
    case None
    then have "(?s, ?p) \<notin> ?key ` set (filter currently_valid (g_relationships g))"
      by (auto simp: find_None_iff about_def)
    with assms None show ?thesis
      by (simp add: add_relationship_def one_valid_per_key_def Let_def currently_valid_def)
  next
    case (Some old)
    have sub: "distinct (map ?key (filter (\<lambda>r. currently_valid r \<and> \<not> about ?s ?p r)
                                      (g_relationships g)))"
      using assms distinct_map_filter [of ?key "filter currently_valid (g_relationships g)"
          "\<lambda>r. \<not> about ?s ?p r"]
      by (simp add: one_valid_per_key_def)
    have fresh: "(?s, ?p) \<notin> ?key ` set (filter (\<lambda>r. currently_valid r \<and> \<not> about ?s ?p r)
                                            (g_relationships g))"
      by (auto simp: about_def)
    show ?thesis
    proof (cases "same_object req old")
      case True
      with Some assms show ?thesis
        by (simp add: add_relationship_def Let_def)
    next
      case False
      with Some sub fresh show ?thesis
        by (simp add: add_relationship_def one_valid_per_key_def Let_def closed_are_not_valid
            currently_valid_def [of "_\<lparr>rel_valid_to := _\<rparr>"])
    qed
  qed
qed

lemma add_relationship_valid_objects:
  assumes "one_valid_per_key g"
  shows "valid_objects (rr_subject_id req) (rr_predicate req)
           (snd (add_relationship new_id timestamp req g)) = [rr_object_value req]"
proof -
  let ?s = "rr_subject_id req" and ?p = "rr_predicate req"
  let ?cur = "\<lambda>r. currently_valid r \<and> about ?s ?p r"
  show ?thesis
  proof (cases "List.find ?cur (g_relationships g)")
    case None
    then have "filter ?cur (g_relationships g) = []"
      by (auto simp: find_None_iff filter_empty_conv)
    with None show ?thesis
      by (simp add: add_relationship_def valid_objects_def Let_def currently_valid_def about_def)
  next
    case (Some old)
    show ?thesis
    proof (cases "same_object req old")
      case True
      with Some one_current [OF assms Some] show ?thesis
        by (simp add: add_relationship_def valid_objects_def Let_def same_object_def)
    next
      case False
      with Some show ?thesis
        by (simp add: add_relationship_def valid_objects_def Let_def closed_are_not_current)
           (simp add: currently_valid_def about_def)
    qed
  qed
qed

lemma add_relationship_entities:
  "g_entities (snd (add_relationship new_id timestamp req g)) = g_entities g"
  by (simp add: add_relationship_def Let_def split: option.splits)

lemma add_relationship_differs:
  assumes "List.find (\<lambda>r. currently_valid r \<and> about (rr_subject_id req) (rr_predicate req) r)
             (g_relationships g) = Some old"
    and "\<not> same_object req old"
  shows "g_relationships (snd (add_relationship new_id timestamp req g)) =
     map (\<lambda>r. if currently_valid r \<and> about (rr_subject_id req) (rr_predicate req) r
               then r\<lparr>rel_valid_to := Some (timestamp (g_clock g))\<rparr> else r)
       (g_relationships g)
     @ [\<lparr>rel_id = new_id (length (g_relationships g)),
         rel_subject_id = rr_subject_id req,
         rel_predicate = rr_predicate req,
         rel_object_id = rr_object_id req,
         rel_object_value = rr_object_value req,
         rel_valid_from = timestamp (g_clock g),
         rel_valid_to = None,
         rel_confidence = (case rr_confidence req of None \<Rightarrow> 1 | Some c \<Rightarrow> c),
         rel_subject_name = None,
         rel_object_name = None\<rparr>]"
  using assms by (simp add: add_relationship_def Let_def)

lemma one_valid_per_key_fact:
  assumes "one_valid_per_key g"
  shows "one_valid_per_fact g"
proof -
  let ?valid = "filter currently_valid (g_relationships g)"
  let ?fact = "\<lambda>r. (rel_subject_id r, rel_predicate r, rel_object_id r, rel_object_value r)"
  have "map (\<lambda>r. (rel_subject_id r, rel_predicate r)) ?valid
          = map (\<lambda>f. (fst f, fst (snd f))) (map ?fact ?valid)"
    by simp
  with assms have "distinct (map (\<lambda>f. (fst f, fst (snd f))) (map ?fact ?valid))"
    by (simp only: one_valid_per_key_def)
  then have "distinct (map ?fact ?valid)"
    by (simp only: distinct_map [of "\<lambda>f. (fst f, fst (snd f))" "map ?fact ?valid"])
  then show ?thesis
    by (simp only: one_valid_per_fact_def)
qed

lemma profile_group:
  assumes "List.find (\<lambda>e. ent_id e = A) (g_entities g) = Some e"
    and "filter (\<lambda>r. currently_valid r \<and> about A p r) (g_relationships g) = [r]"
  shows "\<exists>prof. profile A g = Some prof \<and> map_of (relationships prof) p = Some [r]"
proof -
  let ?valid = "filter (\<lambda>r. rel_subject_id r = A \<and> currently_valid r) (g_relationships g)"
  have "filter (\<lambda>r. rel_predicate r = p) ?valid
          = filter (\<lambda>r. currently_valid r \<and> about A p r) (g_relationships g)"
    by (auto simp: about_def intro!: filter_cong)
  with assms(2) have group: "filter (\<lambda>r. rel_predicate r = p) ?valid = [r]"
    by simp
  then have "r \<in> set (filter (\<lambda>r. rel_predicate r = p) ?valid)"
    by simp
  then have "p \<in> set (map rel_predicate ?valid)"
    by auto
  then have "map_of (map (\<lambda>q. (q, filter (\<lambda>r. rel_predicate r = q) ?valid))
                       (remdups (map rel_predicate ?valid))) p
               = Some (filter (\<lambda>r. rel_predicate r = p) ?valid)"
    by (simp add: map_of_map_restrict)
  with group assms(1) show ?thesis
    by (simp add: profile_def Let_def)
qed

text \<open>
  At most one relationship is valid for a subject and predicate in every state that
  \<open>add_relationship\<close> can produce from a graph without relationships.
\<close>

lemma one_valid_per_key_reachable:
  assumes "g_relationships g = []"
  shows "one_valid_per_key
           (foldl (\<lambda>g req. snd (add_relationship new_id timestamp req g)) g reqs)"
proof -
  have "one_valid_per_key g"
    using assms by (simp add: one_valid_per_key_def)
  then show ?thesis
  proof (induction reqs arbitrary: g)
    case Nil
    then show ?case by simp
  next
    case (Cons req reqs)
    from Cons.prems have "one_valid_per_key (snd (add_relationship new_id timestamp req g))"
      by (rule add_relationship_keeps_one_valid)
    then show ?case
      using Cons.IH by simp
  qed
qed

text \<open>
  C4. Against a service whose graph works as section 4.3 says and holds at most one valid
  relationship for a subject and predicate: after \<^verbatim>\<open>add_relationship(A, p, X)\<close> and
  then \<^verbatim>\<open>add_relationship(A, p, Y)\<close> with \<open>Y \<noteq> X\<close>, both through \<^verbatim>\<open>memory_graph\<close>,
  the relationship to \<open>X\<close> that was valid is still stored, now with \<open>valid_to\<close> set, one
  relationship was added, \<open>Y\<close> is the only object currently valid for \<open>A\<close> and \<open>p\<close>,
  and the profile of \<open>A\<close> that the tool prints has under \<open>p\<close> exactly one
  relationship, whose target is \<open>Y\<close>. At most one relationship with the same subject,
  predicate and object is valid afterwards.
\<close>

theorem superseding_relationship:
  assumes inv: "one_valid_per_key (remote w)"
    and known: "List.find (\<lambda>e. ent_id e = A) (g_entities (remote w)) = Some e"
    and names: "A \<noteq> []" "CHR ''/'' \<notin> set A" "p \<noteq> []" "X \<noteq> []" "Y \<noteq> []"
    and differs: "X \<noteq> Y"
  shows "let exec = memory_graph_execute srv_ents profile_endpoint
                      (relationship_endpoint new_id timestamp) js client;
             w1 = snd (exec (relate A p X) w);
             w2 = snd (exec (relate A p Y) w1)
         in valid_objects A p (remote w1) = [Some X]
          \<and> valid_objects A p (remote w2) = [Some Y]
          \<and> (\<exists>old \<in> set (g_relationships (remote w1)).
                currently_valid old \<and> about A p old \<and> rel_object_value old = Some X
                \<and> old\<lparr>rel_valid_to := Some (timestamp (g_clock (remote w1)))\<rparr>
                    \<in> set (g_relationships (remote w2)))
          \<and> length (g_relationships (remote w2)) = Suc (length (g_relationships (remote w1)))
          \<and> (\<exists>prof r. fst (exec (profile_of A) w2)
                          = Inr (text_response (join ''\<newline>'' (profile_lines prof)))
                \<and> map_of (relationships prof) p = Some [r]
                \<and> relationship_target r = Y \<and> currently_valid r)
          \<and> one_valid_per_key (remote w2) \<and> one_valid_per_fact (remote w2)"
proof -
  let ?exec = "memory_graph_execute srv_ents profile_endpoint
                 (relationship_endpoint new_id timestamp) js client"
  let ?add = "add_relationship new_id timestamp"
  let ?cur = "\<lambda>r. currently_valid r \<and> about A p r"
  define w1 where "w1 = snd (?exec (relate A p X) w)"
  define w2 where "w2 = snd (?exec (relate A p Y) w1)"
  define g1 where "g1 = snd (?add (value_request A p X) (remote w))"
  define g2 where "g2 = snd (?add (value_request A p Y) g1)"
  have r1: "remote w1 = g1"
    using names by (simp add: w1_def g1_def relate_against_service)
  have r2: "remote w2 = g2"
    using names by (simp add: w2_def g2_def relate_against_service r1)
  have req: "rr_subject_id (value_request A p Z) = A" "rr_predicate (value_request A p Z) = p"
    "rr_object_value (value_request A p Z) = Some Z" "rr_object_id (value_request A p Z) = None"
    for Z
    by (simp_all add: value_request_def)
  have inv1: "one_valid_per_key g1"
    unfolding g1_def using inv by (rule add_relationship_keeps_one_valid)
  have inv2: "one_valid_per_key g2"
    unfolding g2_def using inv1 by (rule add_relationship_keeps_one_valid)
  have v1: "valid_objects A p g1 = [Some X]"
    using add_relationship_valid_objects [OF inv, of "value_request A p X" new_id timestamp]
    by (simp add: g1_def req)
  have v2: "valid_objects A p g2 = [Some Y]"
    using add_relationship_valid_objects [OF inv1, of "value_request A p Y" new_id timestamp]
    by (simp add: g2_def req)
  from v1 obtain old where old: "filter ?cur (g_relationships g1) = [old]"
    and oldX: "rel_object_value old = Some X"
    by (auto simp: valid_objects_def)
  from old have found: "List.find ?cur (g_relationships g1) = Some old"
    by (simp add: find_filter)
  from old have "old \<in> set (filter ?cur (g_relationships g1))"
    by simp
  then have old_in: "old \<in> set (g_relationships g1)" and old_cur: "?cur old"
    by simp_all
  from oldX differs have other: "\<not> same_object (value_request A p Y) old"
    by (simp add: same_object_def req)
  let ?opened = "\<lparr>rel_id = new_id (length (g_relationships g1)),
         rel_subject_id = A, rel_predicate = p, rel_object_id = None,
         rel_object_value = Some Y, rel_valid_from = timestamp (g_clock g1),
         rel_valid_to = None, rel_confidence = 1,
         rel_subject_name = None, rel_object_name = None\<rparr>"
  have rels2: "g_relationships g2 =
     map (\<lambda>r. if ?cur r then r\<lparr>rel_valid_to := Some (timestamp (g_clock g1))\<rparr> else r)
       (g_relationships g1) @ [?opened]"
    using add_relationship_differs [of "value_request A p Y" g1 old new_id timestamp]
      found other
    by (simp add: g2_def req value_request_def)
  have closed: "old\<lparr>rel_valid_to := Some (timestamp (g_clock g1))\<rparr> \<in> set (g_relationships g2)"
  proof -
    from old_in old_cur have "old\<lparr>rel_valid_to := Some (timestamp (g_clock g1))\<rparr>
        \<in> (\<lambda>r. if ?cur r then r\<lparr>rel_valid_to := Some (timestamp (g_clock g1))\<rparr> else r)
            ` set (g_relationships g1)"
      by (intro image_eqI [of _ _ old]) simp_all
    then show ?thesis
      by (simp add: rels2)
  qed
  have grown: "length (g_relationships g2) = Suc (length (g_relationships g1))"
    by (simp add: rels2)
  have cur2: "filter ?cur (g_relationships g2) = [?opened]"
    by (simp add: rels2 closed_are_not_current) (simp add: currently_valid_def about_def)
  have "List.find (\<lambda>e. ent_id e = A) (g_entities g2) = Some e"
    using known by (simp add: g2_def g1_def add_relationship_entities)
  from profile_group [OF this cur2] obtain prof where
    prof: "profile A g2 = Some prof" "map_of (relationships prof) p = Some [?opened]"
    by blast
  have shown: "fst (?exec (profile_of A) w2)
                 = Inr (text_response (join ''\<newline>'' (profile_lines prof)))"
    using names prof(1) by (intro profile_against_service) (simp_all add: r2)
  have target: "relationship_target ?opened = Y" "currently_valid ?opened"
    by (simp_all add: relationship_target_def currently_valid_def)
  have closing: "\<exists>old \<in> set (g_relationships g1).
                currently_valid old \<and> about A p old \<and> rel_object_value old = Some X
                \<and> old\<lparr>rel_valid_to := Some (timestamp (g_clock g1))\<rparr>
                    \<in> set (g_relationships g2)"
    using old_in old_cur oldX closed by (intro bexI [of _ old]) simp_all
  have shows_Y: "\<exists>prof r. fst (?exec (profile_of A) w2)
                          = Inr (text_response (join ''\<newline>'' (profile_lines prof)))
                \<and> map_of (relationships prof) p = Some [r]
                \<and> relationship_target r = Y \<and> currently_valid r"
    using shown prof(2) target by (intro exI [of _ prof] exI [of _ ?opened]) simp
  have fact2: "one_valid_per_fact g2"
    using inv2 by (rule one_valid_per_key_fact)
  have "valid_objects A p (remote w1) = [Some X]
          \<and> valid_objects A p (remote w2) = [Some Y]
          \<and> (\<exists>old \<in> set (g_relationships (remote w1)).
                currently_valid old \<and> about A p old \<and> rel_object_value old = Some X
                \<and> old\<lparr>rel_valid_to := Some (timestamp (g_clock (remote w1)))\<rparr>
                    \<in> set (g_relationships (remote w2)))
          \<and> length (g_relationships (remote w2)) = Suc (length (g_relationships (remote w1)))
          \<and> (\<exists>prof r. fst (?exec (profile_of A) w2)
                          = Inr (text_response (join ''\<newline>'' (profile_lines prof)))
                \<and> map_of (relationships prof) p = Some [r]
                \<and> relationship_target r = Y \<and> currently_valid r)
          \<and> one_valid_per_key (remote w2) \<and> one_valid_per_fact (remote w2)"
    unfolding r1 r2
    by (intro conjI) (rule v1 v2 closing grown shows_Y inv2 fact2)+
  then show ?thesis
    by (simp only: Let_def w1_def w2_def)
qed

theorem superseding_relationship_witness:
  "one_valid_per_key (remote alice_graph)
   \<and> map ent_id (g_entities (remote alice_graph)) = [''ent_1'']
   \<and> ''ProjectX'' \<noteq> ''ProjectY''
   \<and> map (\<lambda>r. (rel_id r, rel_object_value r, rel_valid_from r, rel_valid_to r))
         (g_relationships (remote
           (snd (memory_graph_execute entity_search_down profile_endpoint
              (relationship_endpoint (numbered ''rel_'') (numbered ''t'')) js_naturals
              (new_MaasvClient DEFAULT_CONFIG) (relate ''ent_1'' ''works_on'' ''ProjectY'')
              (snd (memory_graph_execute entity_search_down profile_endpoint
                 (relationship_endpoint (numbered ''rel_'') (numbered ''t'')) js_naturals
                 (new_MaasvClient DEFAULT_CONFIG) (relate ''ent_1'' ''works_on'' ''ProjectX'')
                 alice_graph))))))
       = [(''rel_0'', Some ''ProjectX'', ''t0'', Some ''t1''),
          (''rel_1'', Some ''ProjectY'', ''t1'', None)]
   \<and> fst (memory_graph_execute entity_search_down profile_endpoint
          (relationship_endpoint (numbered ''rel_'') (numbered ''t'')) js_naturals
          (new_MaasvClient DEFAULT_CONFIG) (profile_of ''ent_1'')
          (snd (memory_graph_execute entity_search_down profile_endpoint
              (relationship_endpoint (numbered ''rel_'') (numbered ''t'')) js_naturals
              (new_MaasvClient DEFAULT_CONFIG) (relate ''ent_1'' ''works_on'' ''ProjectY'')
              (snd (memory_graph_execute entity_search_down profile_endpoint
                 (relationship_endpoint (numbered ''rel_'') (numbered ''t'')) js_naturals
                 (new_MaasvClient DEFAULT_CONFIG) (relate ''ent_1'' ''works_on'' ''ProjectX'')
                 alice_graph)))))
       = Inr (text_response ''# Alice (person)\<newline>- works_on: ProjectY'')"
proof -
  let ?exec = "memory_graph_execute entity_search_down profile_endpoint
          (relationship_endpoint (numbered ''rel_'') (numbered ''t'')) js_naturals
          (new_MaasvClient DEFAULT_CONFIG)"
  let ?w1 = "snd (?exec (relate ''ent_1'' ''works_on'' ''ProjectX'') alice_graph)"
  let ?w2 = "snd (?exec (relate ''ent_1'' ''works_on'' ''ProjectY'') ?w1)"
  let ?relX = "\<lparr>rel_id = ''rel_0'', rel_subject_id = ''ent_1'', rel_predicate = ''works_on'',
      rel_object_id = None, rel_object_value = Some ''ProjectX'', rel_valid_from = ''t0'',
      rel_valid_to = None, rel_confidence = 1, rel_subject_name = None,
      rel_object_name = None\<rparr>"
  let ?relY = "\<lparr>rel_id = ''rel_1'', rel_subject_id = ''ent_1'', rel_predicate = ''works_on'',
      rel_object_id = None, rel_object_value = Some ''ProjectY'', rel_valid_from = ''t1'',
      rel_valid_to = None, rel_confidence = 1, rel_subject_name = None,
      rel_object_name = None\<rparr>"
  have inv: "one_valid_per_key (remote alice_graph)"
    by (simp add: one_valid_per_key_def alice_graph_def)
  have known: "List.find (\<lambda>e. ent_id e = ''ent_1'') (g_entities (remote alice_graph)) = Some alice"
    by (simp add: alice_graph_def alice_def)
  have ids: "map ent_id (g_entities (remote alice_graph)) = [''ent_1'']"
    by (simp add: alice_graph_def alice_def)
  have g1: "remote ?w1 = \<lparr>g_entities = [alice], g_relationships = [?relX], g_clock = 1\<rparr>"
    by (simp add: relate_against_service alice_graph_def add_relationship_def
        value_request_def numbered_def decimal.simps digit_def Let_def)
  have g2: "remote ?w2 = \<lparr>g_entities = [alice],
      g_relationships = [?relX\<lparr>rel_valid_to := Some ''t1''\<rparr>, ?relY], g_clock = 2\<rparr>"
    by (simp add: relate_against_service [where w = ?w1] g1 add_relationship_def
        value_request_def numbered_def decimal.simps digit_def Let_def currently_valid_def
        about_def same_object_def)
  have rows: "map (\<lambda>r. (rel_id r, rel_object_value r, rel_valid_from r, rel_valid_to r))
         (g_relationships (remote ?w2))
       = [(''rel_0'', Some ''ProjectX'', ''t0'', Some ''t1''),
          (''rel_1'', Some ''ProjectY'', ''t1'', None)]"
    by (simp add: g2)
  have prof: "profile ''ent_1'' (remote ?w2) = Some \<lparr>entity = alice,
      relationships = [(''works_on'', [?relY])], related_entities = []\<rparr>"
    by (simp add: g2 profile_def alice_def currently_valid_def Let_def)
  have printed: "fst (?exec (profile_of ''ent_1'') ?w2)
       = Inr (text_response ''# Alice (person)\<newline>- works_on: ProjectY'')"
    using profile_against_service [where w = ?w2 and A = "''ent_1''", OF _ _ prof]
    by (simp add: profile_lines_def relationship_target_def alice_def)
  from superseding_relationship [where w = alice_graph and A = "''ent_1''" and e = alice
      and p = "''works_on''" and X = "''ProjectX''" and Y = "''ProjectY''"
      and srv_ents = entity_search_down and new_id = "numbered ''rel_''"
      and timestamp = "numbered ''t''" and js = js_naturals
      and client = "new_MaasvClient DEFAULT_CONFIG", OF inv known]
  have "valid_objects ''ent_1'' ''works_on'' (remote ?w2) = [Some ''ProjectY'']"
    by (simp add: Let_def)
  with inv ids rows printed show ?thesis
    by simp
qed

end
